theory Spec2Isabelle
  imports Main "HOL-Library.Word"
begin

unbundle bit_operations_syntax

section \<open>Reavix: the request-serving core and the IPC arena\<close>

text \<open>
  The development embeds the C sources of the repository:
  \<^item> \<^verbatim>\<open>backend/src/libreavix.c\<close>: route table, trie router, dispatch pipeline
    (\<^verbatim>\<open>handle_request\<close>), WebSocket framing (\<^verbatim>\<open>reavix_ws_send\<close>);
  \<^item> \<^verbatim>\<open>backend/include/libreavix.c\<close>: request and response helpers
    (\<^verbatim>\<open>req_get_param\<close>, \<^verbatim>\<open>res_write\<close>, \<^verbatim>\<open>res_send_json\<close>, \<^verbatim>\<open>res_send_error\<close>) and the
    earlier \<^verbatim>\<open>trie_match\<close>;
  \<^item> the router with \<^verbatim>\<open>router_match\<close>;
  \<^item> \<^verbatim>\<open>src/core/ipc.c\<close>: the bump arena \<^verbatim>\<open>ipc_arena_allocate\<close>.

  Conventions. A C pointer that may be \<^verbatim>\<open>NULL\<close> is an \<open>option\<close>. A C string is a
  \<open>string\<close> (the bytes before the terminating NUL). An array with its element count is a
  list together with the count field of the source. A read or write outside an object, or
  through \<^verbatim>\<open>NULL\<close>, is undefined behaviour in C: the model returns a \<open>fault\<close> there.
  An allocation whose result the source checks takes its outcome from a parameter; an
  allocation whose result the source uses unchecked is taken to succeed unless said
  otherwise at the definition.
\<close>

datatype fault = NullDeref | OutOfBounds

type_synonym byte = "8 word"

subsection \<open>libc: case-insensitive comparison\<close>

text \<open>
  \<^verbatim>\<open>tolower\<close> in the C locale, and \<^verbatim>\<open>strcasecmp\<close>, which compares the lower-cased bytes
  and returns a negative, zero or positive integer (POSIX fixes only the sign).
\<close>

definition tolower :: "char \<Rightarrow> char" where
  "tolower c =
     (if (65::nat) \<le> of_char c \<and> of_char c \<le> (90::nat)
      then char_of (of_char c + (32::nat)) else c)"

fun strcasecmp :: "string \<Rightarrow> string \<Rightarrow> int" where
  "strcasecmp [] [] = 0"
| "strcasecmp [] (y # ys) = -1"
| "strcasecmp (x # xs) [] = 1"
| "strcasecmp (x # xs) (y # ys) =
     (if tolower x = tolower y then strcasecmp xs ys
      else if (of_char (tolower x) :: nat) < of_char (tolower y) then -1 else 1)"

subsection \<open>Request and Response (libreavix.h)\<close>

datatype CompressionType =
  COMPRESSION_NONE | COMPRESSION_GZIP | COMPRESSION_BROTLI | COMPRESSION_DEFLATE

text \<open>
  \<^verbatim>\<open>struct Request\<close>. The fields of \<^verbatim>\<open>_internal\<close> are flattened into the record; the
  two parallel arrays of names and values are lists, their count is the count field.
\<close>

record Request = req_method :: string
  path :: string
  query :: string
  body :: "string option"
  header_names :: "string list"
  header_values :: "string list"
  header_count :: nat
  param_names :: "string list"
  param_values :: "string list"
  param_count :: nat

text \<open>
  \<^verbatim>\<open>struct Response\<close>. \<open>content\<close> is the heap block behind \<^verbatim>\<open>char* content\<close>
  (all bytes of the block, \<open>None\<close> for \<^verbatim>\<open>NULL\<close>); \<open>content_length\<close> is the separate
  \<^verbatim>\<open>size_t\<close> field. \<open>client\<close> is the \<^verbatim>\<open>uv_stream_t*\<close> of the owning connection.
\<close>

record Response =
  status_code :: int
  content :: "string option"
  content_length :: nat
  out_header_names :: "string list"
  out_header_values :: "string list"
  out_header_count :: nat
  client :: "nat option"
  headers_sent :: bool
  compression :: CompressionType

subsection \<open>req_get_param (include/libreavix.c)\<close>

text \<open>
  The loop \<^verbatim>\<open>for (i = 0; i < param_count; ++i)\<close> over the index list; the first index
  whose name compares equal under \<^verbatim>\<open>strcasecmp\<close> returns \<^verbatim>\<open>param_values[i]\<close>. An index
  beyond either array is a read out of bounds.
\<close>

fun param_scan :: "string list \<Rightarrow> string list \<Rightarrow> string \<Rightarrow> nat list \<Rightarrow> fault + string option" where
  "param_scan ns vs k [] = Inr None"
| "param_scan ns vs k (i # js) =
     (if i < length ns then
        (if strcasecmp (ns ! i) k = 0 then
           (if i < length vs then Inr (Some (vs ! i)) else Inl OutOfBounds)
         else param_scan ns vs k js)
      else Inl OutOfBounds)"

definition req_get_param :: "Request option \<Rightarrow> string option \<Rightarrow> fault + string option" where
  "req_get_param request key =
     (case request of
        None \<Rightarrow> Inr None
      | Some r \<Rightarrow>
          (case key of
             None \<Rightarrow> Inr None
           | Some k \<Rightarrow> param_scan (param_names r) (param_values r) k [0 ..< param_count r]))"

subsection \<open>res_write (include/libreavix.c)\<close>

text \<open>
  \<^verbatim>\<open>realloc(p, n)\<close> on success: a block of \<open>n\<close> bytes that keeps the old block's bytes
  up to the smaller of the two sizes; the rest is indeterminate and is read from the
  parameter \<open>fresh\<close>. \<^verbatim>\<open>realloc(NULL, n)\<close> is \<^verbatim>\<open>malloc(n)\<close>.
\<close>

definition realloc_block :: "string option \<Rightarrow> nat \<Rightarrow> (nat \<Rightarrow> char) \<Rightarrow> string" where
  "realloc_block old n fresh =
     (let b = (case old of None \<Rightarrow> [] | Some bs \<Rightarrow> bs)
      in map (\<lambda>i. if i < length b then b ! i else fresh i) [0 ..< n])"

text \<open>
  \<^verbatim>\<open>memcpy(dst + off, src, len)\<close> into a block: the bytes \<open>off ..< off + len\<close> of the block
  are replaced by the first \<open>len\<close> bytes of the source.
\<close>

definition memcpy_at :: "string \<Rightarrow> nat \<Rightarrow> string \<Rightarrow> nat \<Rightarrow> string" where
  "memcpy_at blk off src len = take off blk @ take len src @ drop (off + len) blk"

text \<open>
  \<^verbatim>\<open>res_write\<close>. \<open>realloc_ok\<close> is the outcome of the one \<^verbatim>\<open>realloc\<close>. The size
  \<^verbatim>\<open>content_length + len + 1\<close> is computed in \<^verbatim>\<open>size_t\<close> (64 bits); if it wraps, or if
  \<open>len\<close> exceeds the source buffer, the copy runs out of bounds.
\<close>

definition res_write ::
  "Response option \<Rightarrow> string option \<Rightarrow> nat \<Rightarrow> bool \<Rightarrow> (nat \<Rightarrow> char) \<Rightarrow> fault + (bool \<times> Response option)" where
  "res_write res data len realloc_ok fresh =
     (case res of
        None \<Rightarrow> Inr (False, None)
      | Some r \<Rightarrow>
          (case data of
             None \<Rightarrow> Inr (False, Some r)
           | Some d \<Rightarrow>
               if \<not> realloc_ok then Inr (False, Some r)
               else
                 let n = (content_length r + len + 1) mod 2 ^ 64;
                     new_content = realloc_block (content r) n fresh
                 in if length d < len \<or> n < content_length r + len + 1 then Inl OutOfBounds
                    else
                      let copied = memcpy_at new_content (content_length r) d len;
                          cl = content_length r + len
                      in Inr (True,
                              Some (r\<lparr>content := Some (copied[cl := CHR 0x00]),
                                      content_length := cl\<rparr>))))"

subsection \<open>Connections and reavix_ws_send (src/libreavix.c)\<close>

record ClientContext =
  stream :: nat
  is_websocket :: bool
  websocket_connected :: bool

text \<open>\<^verbatim>\<open>find_client_context\<close>: the first tracked connection with the given stream.\<close>

fun find_client_context :: "ClientContext list \<Rightarrow> nat \<Rightarrow> ClientContext option" where
  "find_client_context [] s = None"
| "find_client_context (c # cs) s = (if stream c = s then Some c else find_client_context cs s)"

text \<open>
  \<^verbatim>\<open>reavix_ws_send\<close>. The result is the frame handed to \<^verbatim>\<open>uv_write\<close> (the first
  \<^verbatim>\<open>frame_len\<close> bytes of the buffer), or \<open>None\<close> when the function returns without
  writing. \<open>malloc_ok\<close> is the outcome of \<^verbatim>\<open>malloc(frame_len)\<close>, which the source
  does not check before storing \<^verbatim>\<open>frame[0]\<close>. \<^verbatim>\<open>msg_len\<close> is a 64-bit \<^verbatim>\<open>size_t\<close>.
\<close>

definition reavix_ws_send ::
  "ClientContext list \<Rightarrow> Response option \<Rightarrow> string option \<Rightarrow> bool \<Rightarrow> fault + byte list option" where
  "reavix_ws_send clients res message malloc_ok =
     (case res of
        None \<Rightarrow> Inr None
      | Some r \<Rightarrow>
          (case message of
             None \<Rightarrow> Inr None
           | Some m \<Rightarrow>
               (case client r of
                  None \<Rightarrow> Inr None
                | Some s \<Rightarrow>
                    (case find_client_context clients s of
                       None \<Rightarrow> Inr None
                     | Some ctx \<Rightarrow>
                         if \<not> is_websocket ctx then Inr None
                         else
                           let msg_len = length m;
                               w = (word_of_nat msg_len :: 64 word)
                           in if \<not> malloc_ok then Inl NullDeref
                              else if msg_len \<le> 125 then
                                Inr (Some ([0x81, ucast w] @ map of_char m))
                              else if msg_len \<le> 65535 then
                                Inr (Some ([0x81, 126, ucast (drop_bit 8 w AND 0xFF), ucast (w AND 0xFF)]
                                           @ map of_char m))
                              else Inr None))))"

subsection \<open>xxHash: XXH32\<close>

text \<open>
  \<^verbatim>\<open>ipc.c\<close> calls \<^verbatim>\<open>XXH32\<close> of the xxHash library (\<^verbatim>\<open>xxhash.h\<close>). The function below is
  the 32-bit xxHash algorithm as its specification gives it: four accumulators over
  16-byte stripes, then the remaining 4-byte words, then the remaining bytes, then the
  final mix. All arithmetic is on 32-bit words; input words are read little-endian.
\<close>

definition PRIME32_1 :: "32 word" where "PRIME32_1 = 0x9E3779B1"
definition PRIME32_2 :: "32 word" where "PRIME32_2 = 0x85EBCA77"
definition PRIME32_3 :: "32 word" where "PRIME32_3 = 0xC2B2AE3D"
definition PRIME32_4 :: "32 word" where "PRIME32_4 = 0x27D4EB2F"
definition PRIME32_5 :: "32 word" where "PRIME32_5 = 0x165667B1"

definition rotl32 :: "32 word \<Rightarrow> nat \<Rightarrow> 32 word" where
  "rotl32 x r = push_bit r x OR drop_bit (32 - r) x"

definition read32le :: "byte list \<Rightarrow> 32 word" where
  "read32le bs =
     ucast (bs ! 0) OR push_bit 8 (ucast (bs ! 1)) OR push_bit 16 (ucast (bs ! 2))
       OR push_bit 24 (ucast (bs ! 3))"

definition xxh32_round :: "32 word \<Rightarrow> 32 word \<Rightarrow> 32 word" where
  "xxh32_round acc input = rotl32 (acc + input * PRIME32_2) 13 * PRIME32_1"

fun xxh32_stripes ::
  "nat \<Rightarrow> 32 word \<times> 32 word \<times> 32 word \<times> 32 word \<Rightarrow> byte list
     \<Rightarrow> 32 word \<times> 32 word \<times> 32 word \<times> 32 word" where
  "xxh32_stripes 0 v bs = v"
| "xxh32_stripes (Suc n) (v1, v2, v3, v4) bs =
     xxh32_stripes n
       (xxh32_round v1 (read32le (take 4 bs)),
        xxh32_round v2 (read32le (take 4 (drop 4 bs))),
        xxh32_round v3 (read32le (take 4 (drop 8 bs))),
        xxh32_round v4 (read32le (take 4 (drop 12 bs))))
       (drop 16 bs)"

fun xxh32_words :: "nat \<Rightarrow> 32 word \<Rightarrow> byte list \<Rightarrow> 32 word" where
  "xxh32_words 0 h bs = h"
| "xxh32_words (Suc n) h bs =
     xxh32_words n (rotl32 (h + read32le (take 4 bs) * PRIME32_3) 17 * PRIME32_4) (drop 4 bs)"

fun xxh32_bytes :: "32 word \<Rightarrow> byte list \<Rightarrow> 32 word" where
  "xxh32_bytes h [] = h"
| "xxh32_bytes h (b # bs) = xxh32_bytes (rotl32 (h + ucast b * PRIME32_5) 11 * PRIME32_1) bs"

definition xxh32_avalanche :: "32 word \<Rightarrow> 32 word" where
  "xxh32_avalanche h0 =
     (let h1 = (h0 XOR drop_bit 15 h0) * PRIME32_2;
          h2 = (h1 XOR drop_bit 13 h1) * PRIME32_3
      in h2 XOR drop_bit 16 h2)"

definition XXH32 :: "byte list \<Rightarrow> 32 word \<Rightarrow> 32 word" where
  "XXH32 input seed =
     (let len = length input;
          h0 = (if 16 \<le> len then
                  (case xxh32_stripes (len div 16)
                          (seed + PRIME32_1 + PRIME32_2, seed + PRIME32_2, seed, seed - PRIME32_1)
                          input of
                     (v1, v2, v3, v4) \<Rightarrow> rotl32 v1 1 + rotl32 v2 7 + rotl32 v3 12 + rotl32 v4 18)
                else seed + PRIME32_5);
          h1 = h0 + of_nat len;
          tail = drop (16 * (len div 16)) input;
          h2 = xxh32_words (length tail div 4) h1 tail;
          h3 = xxh32_bytes h2 (drop (4 * (length tail div 4)) tail)
      in xxh32_avalanche h3)"

subsection \<open>The IPC arena (src/core/ipc.c)\<close>

definition IPC_MAGIC :: "32 word" where
  "IPC_MAGIC = 0x52454156"

definition IPC_BUFFER_SIZE :: nat where
  "IPC_BUFFER_SIZE = 2 ^ 22"

text \<open>
  \<^verbatim>\<open>IPCArena\<close>. The two offsets are \<^verbatim>\<open>size_t\<close> (64 bits). \<open>buffer\<close> gives the byte at
  each index of \<^verbatim>\<open>buffer[IPC_BUFFER_SIZE]\<close>; only indices below \<open>IPC_BUFFER_SIZE\<close>
  belong to the array. The calls are taken one after the other (one writer).
\<close>

record IPCArena =
  write_offset :: "64 word"
  read_offset :: "64 word"
  buffer :: "nat \<Rightarrow> byte"

definition ipc_arena_init :: "IPCArena \<Rightarrow> IPCArena" where
  "ipc_arena_init arena = arena\<lparr>write_offset := 0, read_offset := 0, buffer := (\<lambda>i. 0)\<rparr>"

text \<open>
  A store through the \<^verbatim>\<open>uint32_t*\<close> view of the buffer and the matching load, in the
  little-endian byte order of the x86-64 target; \<^verbatim>\<open>memset(p, 0, n)\<close>.
\<close>

definition store_u32 :: "(nat \<Rightarrow> byte) \<Rightarrow> nat \<Rightarrow> 32 word \<Rightarrow> (nat \<Rightarrow> byte)" where
  "store_u32 buf off w =
     buf(off := ucast w, off + 1 := ucast (drop_bit 8 w), off + 2 := ucast (drop_bit 16 w),
         off + 3 := ucast (drop_bit 24 w))"

definition load_u32 :: "(nat \<Rightarrow> byte) \<Rightarrow> nat \<Rightarrow> 32 word" where
  "load_u32 buf off = read32le [buf off, buf (off + 1), buf (off + 2), buf (off + 3)]"

definition memset_zero :: "(nat \<Rightarrow> byte) \<Rightarrow> nat \<Rightarrow> nat \<Rightarrow> (nat \<Rightarrow> byte)" where
  "memset_zero buf p n = (\<lambda>i. if p \<le> i \<and> i < p + n then 0 else buf i)"

text \<open>
  \<^verbatim>\<open>ipc_arena_allocate\<close>. The result is the returned pointer, as an index into the buffer
  (\<open>None\<close> for \<^verbatim>\<open>NULL\<close>), and the arena after the call. The only bounds test of the source
  is \<^verbatim>\<open>current_offset + aligned_size > IPC_BUFFER_SIZE\<close>, in 64-bit arithmetic. The call
  then writes the 16 header bytes at \<open>current_offset\<close> and zeroes \<open>sz\<close> bytes from
  \<open>current_offset + 16\<close>; where that region does not lie inside the array the write is out
  of bounds. The checksum is taken over the bytes found at the payload position at that
  moment, after the \<^verbatim>\<open>memset\<close>.
\<close>

definition ipc_arena_allocate :: "IPCArena \<Rightarrow> 64 word \<Rightarrow> fault + (nat option \<times> IPCArena)" where
  "ipc_arena_allocate arena sz =
     (let aligned_size = (sz + 15) AND NOT 15;
          current_offset = write_offset arena
      in if current_offset + aligned_size > word_of_nat IPC_BUFFER_SIZE then Inr (None, arena)
         else if IPC_BUFFER_SIZE < unat current_offset + 16 + unat sz then Inl OutOfBounds
         else
           let header = unat current_offset;
               ptr = header + 16;
               b1 = store_u32 (buffer arena) header IPC_MAGIC;
               b2 = store_u32 b1 (header + 4) (ucast sz);
               b3 = store_u32 b2 (header + 12) 0;
               b4 = memset_zero b3 ptr (unat sz);
               b5 = store_u32 b4 (header + 8) (XXH32 (map b4 [ptr ..< ptr + unat sz]) IPC_MAGIC)
           in Inr (Some ptr,
                   arena\<lparr>buffer := b5, write_offset := current_offset + aligned_size + 16\<rparr>))"

text \<open>
  The users of a message, following the header layout that \<^verbatim>\<open>ipc.c\<close> documents (magic,
  length, checksum, flags; payload after the 16 header bytes): the writer copies its
  payload to the returned pointer; the reader takes the length and the checksum from
  the header and the payload bytes behind it.
\<close>

definition arena_write_payload :: "IPCArena \<Rightarrow> nat \<Rightarrow> byte list \<Rightarrow> IPCArena" where
  "arena_write_payload arena ptr bs =
     arena\<lparr>buffer := (\<lambda>i. if ptr \<le> i \<and> i < ptr + length bs then bs ! (i - ptr)
                             else buffer arena i)\<rparr>"

definition arena_read_payload :: "IPCArena \<Rightarrow> nat \<Rightarrow> byte list" where
  "arena_read_payload arena header =
     map (buffer arena) [header + 16 ..< header + 16 + unat (load_u32 (buffer arena) (header + 4))]"

definition arena_stored_checksum :: "IPCArena \<Rightarrow> nat \<Rightarrow> 32 word" where
  "arena_stored_checksum arena header = load_u32 (buffer arena) (header + 8)"

definition fresh_arena :: IPCArena where
  "fresh_arena = ipc_arena_init \<lparr>write_offset = 0, read_offset = 0, buffer = (\<lambda>i. 0)\<rparr>"

subsection \<open>Allocation outcomes\<close>

text \<open>
  The allocations whose failure the router handles take their outcomes, in call order,
  from a list; once the list is used up every further allocation succeeds.
\<close>

fun alloc :: "bool list \<Rightarrow> bool \<times> bool list" where
  "alloc [] = (True, [])"
| "alloc (b # bs) = (b, bs)"

subsection \<open>The trie (libreavix.h, src/libreavix.c)\<close>

text \<open>
  A route handler is a function pointer: its address, with \<open>None\<close> for \<^verbatim>\<open>NULL\<close>.
  \<^verbatim>\<open>struct TrieNode\<close> keeps the array \<open>children\<close> (by value) and \<open>child_count\<close> as the
  two fields they are, since a failed \<^verbatim>\<open>realloc\<close> in \<^verbatim>\<open>trie_insert\<close> leaves them out of
  step; \<open>children = []\<close> stands for the \<^verbatim>\<open>NULL\<close> array. The rate-limit field plays no part
  in routing and is left out.
\<close>

type_synonym RouteHandler = nat

datatype TrieNode =
  TrieNode (segment: string) (handler: "RouteHandler option") (children: "TrieNode list")
    (param_child: "TrieNode option") (child_count: nat)

definition set_handler :: "TrieNode \<Rightarrow> RouteHandler option \<Rightarrow> TrieNode" where
  "set_handler n h = TrieNode (segment n) h (children n) (param_child n) (child_count n)"

definition set_param_child :: "TrieNode \<Rightarrow> TrieNode option \<Rightarrow> TrieNode" where
  "set_param_child n pc = TrieNode (segment n) (handler n) (children n) pc (child_count n)"

definition set_children :: "TrieNode \<Rightarrow> TrieNode list \<Rightarrow> nat \<Rightarrow> TrieNode" where
  "set_children n cs cc = TrieNode (segment n) (handler n) cs (param_child n) cc"

record PathParam =
  p_name :: string
  p_value :: string

definition MAX_PARAMS :: nat where
  "MAX_PARAMS = 10"

text \<open>
  \<^verbatim>\<open>strtok_r(path_copy, "/", &saveptr)\<close> called until it returns \<^verbatim>\<open>NULL\<close>: the maximal
  runs of bytes other than \<^verbatim>\<open>/\<close>, in order; empty runs are skipped.
\<close>

fun strtok_from :: "string \<Rightarrow> string \<Rightarrow> string list" where
  "strtok_from cur [] = (if cur = [] then [] else [cur])"
| "strtok_from cur (c # cs) =
     (if c = CHR ''/'' then (if cur = [] then strtok_from [] cs else cur # strtok_from [] cs)
      else strtok_from (cur @ [c]) cs)"

definition strtok_segments :: "string \<Rightarrow> string list" where
  "strtok_segments p = strtok_from [] p"

text \<open>\<^verbatim>\<open>segment[0] == ':'\<close>\<close>

definition is_param :: "string \<Rightarrow> bool" where
  "is_param seg = (case seg of [] \<Rightarrow> False | c # _ \<Rightarrow> c = CHR '':'')"

text \<open>
  \<^verbatim>\<open>create_trie_node\<close>: \<^verbatim>\<open>calloc\<close> for the node, then \<^verbatim>\<open>strdup\<close> for the segment; either
  failure gives \<^verbatim>\<open>NULL\<close>.
\<close>

definition create_trie_node :: "string \<Rightarrow> bool list \<Rightarrow> TrieNode option \<times> bool list" where
  "create_trie_node seg al =
     (case alloc al of
        (False, al1) \<Rightarrow> (None, al1)
      | (True, al1) \<Rightarrow>
          (case alloc al1 of
             (False, al2) \<Rightarrow> (None, al2)
           | (True, al2) \<Rightarrow> (Some (TrieNode seg None [] None 0), al2)))"

text \<open>
  The search loop shared by the trie walks:
  \<^verbatim>\<open>for (i = 0; i < current->child_count; i++) if (strcmp(current->children[i].segment, segment) == 0)\<close>.
  \<open>scan_children cs n i seg\<close> has \<open>n\<close> iterations left from index \<open>i\<close>; it returns
  the first matching index. Reading an element the array does not hold is a fault.
\<close>

fun scan_children :: "TrieNode list \<Rightarrow> nat \<Rightarrow> nat \<Rightarrow> string \<Rightarrow> fault + nat option" where
  "scan_children cs 0 i seg = Inr None"
| "scan_children cs (Suc n) i seg =
     (if i < length cs then
        (if segment (cs ! i) = seg then Inr (Some i) else scan_children cs n (Suc i) seg)
      else Inl (if cs = [] then NullDeref else OutOfBounds))"

definition find_child :: "TrieNode \<Rightarrow> string \<Rightarrow> fault + nat option" where
  "find_child current seg = scan_children (children current) (child_count current) 0 seg"

text \<open>
  The loop of \<^verbatim>\<open>trie_insert\<close> (src/libreavix.c) from the node \<open>current\<close> over the
  remaining segments; the result is the return value, the subtree at \<open>current\<close> after
  the call, and the allocation outcomes left. A segment starting with \<^verbatim>\<open>:\<close> is not
  searched for: a new node always replaces \<open>param_child\<close>. A static segment descends into
  the first child with that text, or appends a new child; there \<open>child_count\<close> is
  incremented before \<^verbatim>\<open>realloc\<close>, whose failure stores \<^verbatim>\<open>NULL\<close> in \<open>children\<close>.
\<close>

fun trie_insert_loop ::
  "TrieNode \<Rightarrow> string list \<Rightarrow> RouteHandler option \<Rightarrow> bool list
     \<Rightarrow> fault + (bool \<times> TrieNode \<times> bool list)" where
  "trie_insert_loop current [] h al = Inr (True, set_handler current h, al)"
| "trie_insert_loop current (seg # segs) h al =
     (if is_param seg then
        (case create_trie_node seg al of
           (None, al1) \<Rightarrow> Inr (False, current, al1)
         | (Some new_node, al1) \<Rightarrow>
             (case trie_insert_loop new_node segs h al1 of
                Inl f \<Rightarrow> Inl f
              | Inr (ok, child, al2) \<Rightarrow> Inr (ok, set_param_child current (Some child), al2)))
      else
        (case find_child current seg of
           Inl f \<Rightarrow> Inl f
         | Inr (Some i) \<Rightarrow>
             (case trie_insert_loop (children current ! i) segs h al of
                Inl f \<Rightarrow> Inl f
              | Inr (ok, child, al1) \<Rightarrow>
                  Inr (ok, set_children current ((children current)[i := child])
                             (child_count current), al1))
         | Inr None \<Rightarrow>
             (case create_trie_node seg al of
                (None, al1) \<Rightarrow> Inr (False, current, al1)
              | (Some new_node, al1) \<Rightarrow>
                  (case alloc al1 of
                     (False, al2) \<Rightarrow>
                       Inr (False, set_children current [] (child_count current + 1), al2)
                   | (True, al2) \<Rightarrow>
                       (case trie_insert_loop new_node segs h al2 of
                          Inl f \<Rightarrow> Inl f
                        | Inr (ok, child, al3) \<Rightarrow>
                            Inr (ok,
                                 set_children current
                                   (take (child_count current) (children current) @ [child])
                                   (child_count current + 1),
                                 al3))))))"

text \<open>
  \<^verbatim>\<open>trie_insert\<close> (src/libreavix.c). \<open>root\<close> is the node behind the pointer, which the
  only caller takes from \<^verbatim>\<open>&reavix_state.root_node\<close>; the first allocation is
  \<^verbatim>\<open>strdup(path)\<close>.
\<close>

definition trie_insert ::
  "TrieNode \<Rightarrow> string option \<Rightarrow> RouteHandler option \<Rightarrow> bool list
     \<Rightarrow> fault + (bool \<times> TrieNode \<times> bool list)" where
  "trie_insert root p h al =
     (case p of
        None \<Rightarrow> Inr (False, root, al)
      | Some pth \<Rightarrow>
          (case alloc al of
             (False, al1) \<Rightarrow> Inr (False, root, al1)
           | (True, al1) \<Rightarrow> trie_insert_loop root (strtok_segments pth) h al1))"

text \<open>
  \<^verbatim>\<open>trie_match\<close> of src/libreavix.c. The result is the return value together with the
  two out-parameters as the caller finds them: \<^verbatim>\<open>*param_count\<close> entries of \<^verbatim>\<open>params\<close>
  and \<^verbatim>\<open>*out_handler\<close>; both are written only when the walk reaches the end of the path,
  and the caller (\<^verbatim>\<open>handle_request\<close>) starts them at \<open>0\<close> and \<^verbatim>\<open>NULL\<close>.
  Here \<^verbatim>\<open>is_param\<close> is computed from the segment of the request path: the static search
  runs only for a segment that does not start with \<^verbatim>\<open>:\<close>, and the parameter child is
  taken only for a segment that does.
\<close>

fun trie_match_loop ::
  "TrieNode \<Rightarrow> string list \<Rightarrow> PathParam list
     \<Rightarrow> fault + (bool \<times> PathParam list \<times> RouteHandler option)" where
  "trie_match_loop current [] params = Inr (handler current \<noteq> None, params, handler current)"
| "trie_match_loop current (seg # segs) params =
     (if is_param seg then
        (case param_child current of
           Some pc \<Rightarrow>
             if length params < MAX_PARAMS
             then trie_match_loop pc segs (params @ [\<lparr>p_name = tl (segment pc), p_value = seg\<rparr>])
             else Inr (False, [], None)
         | None \<Rightarrow> Inr (False, [], None))
      else
        (case find_child current seg of
           Inl f \<Rightarrow> Inl f
         | Inr (Some i) \<Rightarrow> trie_match_loop (children current ! i) segs params
         | Inr None \<Rightarrow> Inr (False, [], None)))"

definition trie_match ::
  "TrieNode \<Rightarrow> string option \<Rightarrow> bool
     \<Rightarrow> fault + (bool \<times> PathParam list \<times> RouteHandler option)" where
  "trie_match root p path_copy_ok =
     (case p of
        None \<Rightarrow> Inr (False, [], None)
      | Some pth \<Rightarrow>
          if \<not> path_copy_ok then Inr (False, [], None)
          else trie_match_loop root (strtok_segments pth) [])"

text \<open>
  \<^verbatim>\<open>trie_match\<close> of include/libreavix.c. Every segment is searched among the static
  children first; only when none matches is the parameter child taken, and the segment is
  recorded under the child's name while fewer than \<open>MAX_PARAMS\<close> are recorded. It writes
  through \<^verbatim>\<open>*param_count\<close> as it goes (the caller starts it at 0) and returns true at the
  end of the path whether or not the node has a handler.
\<close>

fun trie_match_include_loop ::
  "TrieNode \<Rightarrow> string list \<Rightarrow> PathParam list
     \<Rightarrow> fault + (bool \<times> PathParam list \<times> RouteHandler option)" where
  "trie_match_include_loop current [] params = Inr (True, params, handler current)"
| "trie_match_include_loop current (seg # segs) params =
     (case find_child current seg of
        Inl f \<Rightarrow> Inl f
      | Inr (Some i) \<Rightarrow> trie_match_include_loop (children current ! i) segs params
      | Inr None \<Rightarrow>
          (case param_child current of
             Some pc \<Rightarrow>
               trie_match_include_loop pc segs
                 (if length params < MAX_PARAMS
                  then params @ [\<lparr>p_name = tl (segment pc), p_value = seg\<rparr>] else params)
           | None \<Rightarrow> Inr (False, params, None)))"

definition trie_match_include ::
  "TrieNode \<Rightarrow> string option \<Rightarrow> bool
     \<Rightarrow> fault + (bool \<times> PathParam list \<times> RouteHandler option)" where
  "trie_match_include root p path_copy_ok =
     (case p of
        None \<Rightarrow> Inr (False, [], None)
      | Some pth \<Rightarrow>
          if \<not> path_copy_ok then Inr (False, [], None)
          else trie_match_include_loop root (strtok_segments pth) [])"

subsection \<open>router_match (the router with its own route table)\<close>

text \<open>
  \<^verbatim>\<open>RouteEntry\<close>. The two strings are what \<^verbatim>\<open>strdup\<close> returned when the entry was made,
  so either may be \<^verbatim>\<open>NULL\<close>.
\<close>

record RouteEntry =
  entry_method :: "string option"
  entry_path :: "string option"
  entry_handler :: "RouteHandler option"

text \<open>
  The walk of \<^verbatim>\<open>router_match\<close>: static children first, then the parameter child, which
  is recorded when the caller passed a \<^verbatim>\<open>params\<close> array and fewer than \<open>MAX_PARAMS\<close>
  are recorded.
\<close>

fun router_match_loop ::
  "TrieNode \<Rightarrow> string list \<Rightarrow> PathParam list \<Rightarrow> bool
     \<Rightarrow> fault + (bool \<times> PathParam list \<times> RouteHandler option)" where
  "router_match_loop current [] params want = Inr (True, params, handler current)"
| "router_match_loop current (seg # segs) params want =
     (case find_child current seg of
        Inl f \<Rightarrow> Inl f
      | Inr (Some i) \<Rightarrow> router_match_loop (children current ! i) segs params want
      | Inr None \<Rightarrow>
          (case param_child current of
             Some pc \<Rightarrow>
               router_match_loop pc segs
                 (if want \<and> length params < MAX_PARAMS
                  then params @ [\<lparr>p_name = tl (segment pc), p_value = seg\<rparr>] else params)
                 want
           | None \<Rightarrow> Inr (False, params, None)))"

text \<open>
  The method check at the end of \<^verbatim>\<open>router_match\<close>:
  \<^verbatim>\<open>routes[i].handler == *handler && strcmp(routes[i].method, method) == 0\<close>.
\<close>

fun method_verify :: "RouteEntry list \<Rightarrow> RouteHandler option \<Rightarrow> string \<Rightarrow> fault + bool" where
  "method_verify [] h m = Inr False"
| "method_verify (e # es) h m =
     (if entry_handler e = h then
        (case entry_method e of
           None \<Rightarrow> Inl NullDeref
         | Some em \<Rightarrow> if em = m then Inr True else method_verify es h m)
      else method_verify es h m)"

definition router_match ::
  "RouteEntry list \<Rightarrow> TrieNode \<Rightarrow> string option \<Rightarrow> string option \<Rightarrow> bool \<Rightarrow> bool
     \<Rightarrow> fault + (bool \<times> PathParam list \<times> RouteHandler option)" where
  "router_match rts root meth p want path_copy_ok =
     (case p of
        None \<Rightarrow> Inr (False, [], None)
      | Some pth \<Rightarrow>
          if \<not> path_copy_ok then Inr (False, [], None)
          else
            (case router_match_loop root (strtok_segments pth) [] want of
               Inl f \<Rightarrow> Inl f
             | Inr (False, ps, h) \<Rightarrow> Inr (False, ps, h)
             | Inr (True, ps, h) \<Rightarrow>
                 (case meth of
                    None \<Rightarrow> Inr (True, ps, h)
                  | Some m \<Rightarrow>
                      (case method_verify rts h m of
                         Inl f \<Rightarrow> Inl f
                       | Inr b \<Rightarrow> Inr (b, ps, h)))))"

subsection \<open>The framework state and reavix_route (src/libreavix.c)\<close>

text \<open>
  \<^verbatim>\<open>struct Plugin\<close> and the part of \<^verbatim>\<open>reavix_state\<close> that registration and dispatch use.
  Middleware and plugin hooks are function pointers (addresses). \<open>routes\<close> holds the
  first \<^verbatim>\<open>route_count\<close> entries of the array (the rest is never read), so
  \<^verbatim>\<open>route_count\<close> is its length; likewise for plugins, middleware and clients.
\<close>

record Plugin =
  plugin_name :: string
  plugin_init :: "nat option"
  pre_handler :: "nat option"
  post_handler :: "nat option"

record ReavixState =
  routes :: "RouteEntry list"
  route_capacity :: nat
  root_node :: TrieNode
  plugins :: "Plugin list"
  middleware :: "nat list"
  clients :: "ClientContext list"

definition route_count :: "ReavixState \<Rightarrow> nat" where
  "route_count s = length (routes s)"


text \<open>
  The duplicate test of \<^verbatim>\<open>reavix_route\<close>:
  \<^verbatim>\<open>strcmp(routes[i].method, method) == 0 && strcmp(routes[i].path, path) == 0\<close>.
\<close>

fun find_duplicate :: "RouteEntry list \<Rightarrow> string \<Rightarrow> string \<Rightarrow> fault + bool" where
  "find_duplicate [] m p = Inr False"
| "find_duplicate (e # es) m p =
     (case entry_method e of
        None \<Rightarrow> Inl NullDeref
      | Some em \<Rightarrow>
          if em = m then
            (case entry_path e of
               None \<Rightarrow> Inl NullDeref
             | Some ep \<Rightarrow> if ep = p then Inr True else find_duplicate es m p)
          else find_duplicate es m p)"

text \<open>
  \<^verbatim>\<open>reavix_route\<close>. After the three tests the entry is stored in the table and the
  count incremented, and only then is \<^verbatim>\<open>trie_insert\<close> called; its result is returned.
  The allocation outcomes are used first by the two \<^verbatim>\<open>strdup\<close> calls of the entry
  (unchecked: a failed one stores \<^verbatim>\<open>NULL\<close>), then by \<^verbatim>\<open>trie_insert\<close>.
\<close>

definition reavix_route ::
  "ReavixState \<Rightarrow> string option \<Rightarrow> string option \<Rightarrow> RouteHandler option \<Rightarrow> bool list
     \<Rightarrow> fault + (bool \<times> ReavixState \<times> bool list)" where
  "reavix_route s meth p h al =
     (case (meth, p, h) of
        (Some m, Some pth, Some hnd) \<Rightarrow>
          if route_count s \<ge> route_capacity s then Inr (False, s, al)
          else
            (case find_duplicate (routes s) m pth of
               Inl f \<Rightarrow> Inl f
             | Inr True \<Rightarrow> Inr (False, s, al)
             | Inr False \<Rightarrow>
                 (case alloc al of
                    (m_ok, al1) \<Rightarrow>
                      (case alloc al1 of
                         (p_ok, al2) \<Rightarrow>
                           let e = \<lparr>entry_method = (if m_ok then Some m else None),
                                    entry_path = (if p_ok then Some pth else None),
                                    entry_handler = Some hnd\<rparr>;
                               s1 = s\<lparr>routes := routes s @ [e]\<rparr>
                           in (case trie_insert (root_node s1) (Some pth) (Some hnd) al2 of
                                 Inl f \<Rightarrow> Inl f
                               | Inr (ok, root', al3) \<Rightarrow>
                                   Inr (ok, s1\<lparr>root_node := root'\<rparr>, al3)))))
      | _ \<Rightarrow> Inr (False, s, al))"

subsection \<open>Responses: res_set_header, send_response, res_send_json, res_send_error\<close>

text \<open>\<^verbatim>\<open>%d\<close> and \<^verbatim>\<open>%zu\<close>: decimal digits.\<close>

fun dec :: "nat \<Rightarrow> string" where
  "dec n = (if n < 10 then [char_of (48 + n)] else dec (n div 10) @ [char_of (48 + n mod 10)])"

declare dec.simps [simp del]

definition show_int :: "int \<Rightarrow> string" where
  "show_int i = (if i < 0 then CHR ''-'' # dec (nat (- i)) else dec (nat i))"

text \<open>
  \<^verbatim>\<open>res_set_header\<close> (include/libreavix.c, the only definition): both arrays are
  reallocated to one more element; if either \<^verbatim>\<open>realloc\<close> fails the fields of the
  response are left as they were. The two \<^verbatim>\<open>strdup\<close> calls of the new entry are taken
  to succeed. \<open>set_header\<close> is the body for a response and two strings that are not
  \<^verbatim>\<open>NULL\<close>.
\<close>

definition set_header :: "Response \<Rightarrow> string \<Rightarrow> string \<Rightarrow> bool list \<Rightarrow> Response \<times> bool list" where
  "set_header r n v al =
     (case alloc al of
        (names_ok, al1) \<Rightarrow>
          (case alloc al1 of
             (values_ok, al2) \<Rightarrow>
               if \<not> names_ok \<or> \<not> values_ok then (r, al2)
               else
                 (r\<lparr>out_header_names := take (out_header_count r) (out_header_names r) @ [n],
                    out_header_values := take (out_header_count r) (out_header_values r) @ [v],
                    out_header_count := out_header_count r + 1\<rparr>,
                  al2)))"

definition res_set_header ::
  "Response option \<Rightarrow> string option \<Rightarrow> string option \<Rightarrow> bool list \<Rightarrow> Response option \<times> bool list" where
  "res_set_header response nm val al =
     (case (response, nm, val) of
        (Some r, Some n, Some v) \<Rightarrow> (case set_header r n v al of (r1, al1) \<Rightarrow> (Some r1, al1))
      | _ \<Rightarrow> (response, al))"

text \<open>
  What a middleware, a plugin hook or a route handler can act on: the request, the
  response, and the connection output, kept as the list of buffers handed to
  \<^verbatim>\<open>uv_write\<close> (stream and bytes) in order.
\<close>

record World =
  w_req :: Request
  w_res :: Response
  w_wire :: "(nat \<times> string) list"

text \<open>\<^verbatim>\<open>get_status_text\<close>\<close>

definition get_status_text :: "int \<Rightarrow> string" where
  "get_status_text status =
     (if status = 200 then ''OK''
      else if status = 201 then ''Created''
      else if status = 204 then ''No Content''
      else if status = 400 then ''Bad Request''
      else if status = 401 then ''Unauthorized''
      else if status = 403 then ''Forbidden''
      else if status = 404 then ''Not Found''
      else if status = 500 then ''Internal Server Error''
      else if status = 503 then ''Service Unavailable''
      else ''Unknown'')"

text \<open>The header lines \<^verbatim>\<open>"%s: %s\r\n"\<close> for the first \<open>n\<close> entries of the two arrays.\<close>

fun header_lines :: "string list \<Rightarrow> string list \<Rightarrow> nat list \<Rightarrow> fault + string" where
  "header_lines ns vs [] = Inr []"
| "header_lines ns vs (i # js) =
     (if i < length ns \<and> i < length vs then
        (case header_lines ns vs js of
           Inl f \<Rightarrow> Inl f
         | Inr rest \<Rightarrow> Inr (ns ! i @ '': '' @ vs ! i @ [CHR 0x0D, CHR 0x0A] @ rest))
      else Inl OutOfBounds)"

text \<open>
  \<^verbatim>\<open>send_response\<close> (src/libreavix.c). It does nothing when \<open>headers_sent\<close> is set or
  the connection is not tracked. Otherwise the status line, the headers and
  \<^verbatim>\<open>Content-Length\<close> are formatted by \<^verbatim>\<open>snprintf\<close> into \<^verbatim>\<open>char headers[4096]\<close>: a text
  shorter than 4096 bytes is written as it is; one of exactly 4096 bytes loses its last
  byte to the terminator; a longer one moves the write position past the buffer. The body
  follows as a second write, and \<open>headers_sent\<close> is set.
\<close>

definition send_response :: "ClientContext list \<Rightarrow> World \<Rightarrow> fault + World" where
  "send_response cl w =
     (let r = w_res w in
      if headers_sent r then Inr w
      else
        (case client r of
           None \<Rightarrow> Inr w
         | Some s \<Rightarrow>
             (case find_client_context cl s of
                None \<Rightarrow> Inr w
              | Some ctx \<Rightarrow>
                  (case header_lines (out_header_names r) (out_header_values r)
                          [0 ..< out_header_count r] of
                     Inl f \<Rightarrow> Inl f
                   | Inr hl \<Rightarrow>
                       let hdr_text = ''HTTP/1.1 '' @ show_int (status_code r) @ '' ''
                                    @ get_status_text (status_code r) @ [CHR 0x0D, CHR 0x0A] @ hl
                                    @ ''Content-Length: '' @ dec (content_length r)
                                    @ [CHR 0x0D, CHR 0x0A, CHR 0x0D, CHR 0x0A]
                       in if 4096 < length hdr_text then Inl OutOfBounds
                          else
                            let headers = (if length hdr_text = 4096 then take 4095 hdr_text @ [CHR 0x00]
                                           else hdr_text);
                                w1 = w\<lparr>w_wire := w_wire w @ [(stream ctx, headers)]\<rparr>
                            in (case content r of
                                  Some blk \<Rightarrow>
                                    if 0 < content_length r then
                                      (if length blk < content_length r then Inl OutOfBounds
                                       else Inr (w1\<lparr>w_wire := w_wire w1
                                                        @ [(stream ctx, take (content_length r) blk)],
                                                    w_res := r\<lparr>headers_sent := True\<rparr>\<rparr>))
                                    else Inr (w1\<lparr>w_res := r\<lparr>headers_sent := True\<rparr>\<rparr>)
                                | None \<Rightarrow> Inr (w1\<lparr>w_res := r\<lparr>headers_sent := True\<rparr>\<rparr>))))))"

text \<open>
  \<^verbatim>\<open>compress_data\<close> (src/libreavix.c) returns false for \<open>COMPRESSION_NONE\<close> and for a
  \<^verbatim>\<open>NULL\<close> input; otherwise it runs zlib (\<^verbatim>\<open>deflateInit2\<close> with a gzip header for
  \<open>COMPRESSION_GZIP\<close>, \<^verbatim>\<open>deflateInit\<close> for the other two) into a freshly allocated
  buffer. zlib is not part of the repository: \<open>zlib c input\<close> is what that run produces,
  \<open>None\<close> when the allocation, the initialisation or \<^verbatim>\<open>deflate\<close> fails.
\<close>

definition compress_data ::
  "(CompressionType \<Rightarrow> string \<Rightarrow> string option) \<Rightarrow> string option \<Rightarrow> CompressionType \<Rightarrow> string option" where
  "compress_data zlib input c =
     (if c = COMPRESSION_NONE then None
      else (case input of None \<Rightarrow> None | Some bytes \<Rightarrow> zlib c bytes))"

text \<open>The \<^verbatim>\<open>switch\<close> that names the content encoding.\<close>

definition encoding_name :: "CompressionType \<Rightarrow> string" where
  "encoding_name c =
     (case c of
        COMPRESSION_GZIP \<Rightarrow> ''gzip''
      | COMPRESSION_BROTLI \<Rightarrow> ''br''
      | COMPRESSION_DEFLATE \<Rightarrow> ''deflate''
      | COMPRESSION_NONE \<Rightarrow> [])"

text \<open>
  \<^verbatim>\<open>res_send_json\<close> of src/libreavix.c, the file of \<^verbatim>\<open>handle_request\<close>, for the response
  of the world (not \<^verbatim>\<open>NULL\<close>). It replaces the body by a copy of the JSON text (taken to
  succeed), adds the content type, compresses the body when a compression is selected and
  \<^verbatim>\<open>compress_data\<close> succeeds, and calls \<^verbatim>\<open>send_response\<close>. It does not assign
  \<open>status_code\<close>. The input of \<^verbatim>\<open>compress_data\<close> is the first \<open>content_length\<close> bytes
  of the body; the compressed body is kept as the bytes produced.
\<close>

definition res_send_json ::
  "ClientContext list \<Rightarrow> (CompressionType \<Rightarrow> string \<Rightarrow> string option) \<Rightarrow> World \<Rightarrow> string option
     \<Rightarrow> bool list \<Rightarrow> fault + (World \<times> bool list)" where
  "res_send_json cl zlib w json al =
     (case json of
        None \<Rightarrow> Inr (w, al)
      | Some j \<Rightarrow>
          (case set_header ((w_res w)\<lparr>content := Some (j @ [CHR 0x00]), content_length := length j\<rparr>)
                  ''Content-Type'' ''application/json'' al of
             (r1, al1) \<Rightarrow>
               (case (if compression r1 \<noteq> COMPRESSION_NONE then
                        (case compress_data zlib
                                (map_option (take (content_length r1)) (content r1))
                                (compression r1) of
                           None \<Rightarrow> (r1, al1)
                         | Some compressed \<Rightarrow>
                             set_header (r1\<lparr>content := Some compressed,
                                            content_length := length compressed\<rparr>)
                               ''Content-Encoding'' (encoding_name (compression r1)) al1)
                      else (r1, al1)) of
                  (r2, al2) \<Rightarrow>
                    (case send_response cl (w\<lparr>w_res := r2\<rparr>) of
                       Inl f \<Rightarrow> Inl f
                     | Inr w1 \<Rightarrow> Inr (w1, al2)))))"

text \<open>
  \<^verbatim>\<open>res_send_error\<close> (include/libreavix.c, the only definition), for the response of the
  world: it stores the code, formats the JSON text with \<^verbatim>\<open>snprintf\<close> into 512 bytes (at
  most 511 characters are kept) and calls \<^verbatim>\<open>res_send_json\<close>, which in the program of
  \<^verbatim>\<open>handle_request\<close> is the function above.
\<close>

definition res_send_error ::
  "ClientContext list \<Rightarrow> (CompressionType \<Rightarrow> string \<Rightarrow> string option) \<Rightarrow> World \<Rightarrow> int
     \<Rightarrow> string option \<Rightarrow> bool list \<Rightarrow> fault + (World \<times> bool list)" where
  \<open>res_send_error cl zlib w code message al =
     (case message of
        None \<Rightarrow> Inr (w, al)
      | Some msg \<Rightarrow>
          let w1 = w\<lparr>w_res := (w_res w)\<lparr>status_code := code\<rparr>\<rparr>;
              json = take 511 (''{"error":{"code":'' @ show_int code @ '',"message":"'' @ msg
                                 @ ''"}}'')
          in res_send_json cl zlib w1 (Some json) al)\<close>

subsection \<open>The dispatch pipeline (src/libreavix.c)\<close>

text \<open>
  The function stored at an address is given by a table \<open>code\<close>; for a middleware it is
  its effect when called with the \<^verbatim>\<open>next\<close> argument of \<^verbatim>\<open>handle_request\<close>, which does
  nothing. Each call the pipeline makes is logged with the world it returned, so that
  theorems can say which stages ran.
\<close>

datatype Stage =
  MiddlewareStage nat | PreHandlerStage nat | RouteHandlerStage RouteHandler
  | NotFoundStage | PostHandlerStage nat

definition is_gate :: "Stage \<Rightarrow> bool" where
  "is_gate st = (case st of MiddlewareStage i \<Rightarrow> True | PreHandlerStage i \<Rightarrow> True | _ \<Rightarrow> False)"

text \<open>
  The middleware loop: after each call, \<^verbatim>\<open>if (res->_internal.headers_sent) return;\<close>.
  The first component of the result says whether \<^verbatim>\<open>handle_request\<close> has returned.
\<close>

fun run_middleware ::
  "(nat \<Rightarrow> World \<Rightarrow> World) \<Rightarrow> nat list \<Rightarrow> nat \<Rightarrow> World \<Rightarrow> (Stage \<times> World) list
     \<Rightarrow> bool \<times> World \<times> (Stage \<times> World) list" where
  "run_middleware code [] i w tr = (False, w, tr)"
| "run_middleware code (m # ms) i w tr =
     (let w1 = code m w; tr1 = tr @ [(MiddlewareStage i, w1)]
      in if headers_sent (w_res w1) then (True, w1, tr1)
         else run_middleware code ms (Suc i) w1 tr1)"

text \<open>The pre-handler loop: a plugin without \<^verbatim>\<open>pre_handler\<close> is skipped.\<close>

fun run_pre_handlers ::
  "(nat \<Rightarrow> World \<Rightarrow> World) \<Rightarrow> Plugin list \<Rightarrow> nat \<Rightarrow> World \<Rightarrow> (Stage \<times> World) list
     \<Rightarrow> bool \<times> World \<times> (Stage \<times> World) list" where
  "run_pre_handlers code [] i w tr = (False, w, tr)"
| "run_pre_handlers code (p # ps) i w tr =
     (case pre_handler p of
        None \<Rightarrow> run_pre_handlers code ps (Suc i) w tr
      | Some f \<Rightarrow>
          let w1 = code f w; tr1 = tr @ [(PreHandlerStage i, w1)]
          in if headers_sent (w_res w1) then (True, w1, tr1)
             else run_pre_handlers code ps (Suc i) w1 tr1)"

text \<open>The post-handler loop has no test.\<close>

fun run_post_handlers ::
  "(nat \<Rightarrow> World \<Rightarrow> World) \<Rightarrow> Plugin list \<Rightarrow> nat \<Rightarrow> World \<Rightarrow> (Stage \<times> World) list
     \<Rightarrow> World \<times> (Stage \<times> World) list" where
  "run_post_handlers code [] i w tr = (w, tr)"
| "run_post_handlers code (p # ps) i w tr =
     (case post_handler p of
        None \<Rightarrow> run_post_handlers code ps (Suc i) w tr
      | Some f \<Rightarrow>
          let w1 = code f w
          in run_post_handlers code ps (Suc i) w1 (tr @ [(PostHandlerStage i, w1)]))"

text \<open>
  \<^verbatim>\<open>handle_request\<close>. The allocation outcomes are used by \<^verbatim>\<open>strdup(path)\<close> in
  \<^verbatim>\<open>trie_match\<close> and then by \<^verbatim>\<open>res_set_header\<close>; the two \<^verbatim>\<open>malloc\<close> calls for the
  parameter arrays are taken to succeed. The not-found branch calls \<^verbatim>\<open>res_send_error\<close>,
  which reaches \<^verbatim>\<open>res_send_json\<close> and \<^verbatim>\<open>send_response\<close> of this same file.
\<close>

definition handle_request ::
  "(nat \<Rightarrow> World \<Rightarrow> World) \<Rightarrow> (CompressionType \<Rightarrow> string \<Rightarrow> string option) \<Rightarrow> ReavixState \<Rightarrow> World
     \<Rightarrow> bool list \<Rightarrow> fault + (World \<times> (Stage \<times> World) list)" where
  "handle_request code zlib s w al =
     (case run_middleware code (middleware s) 0 w [] of
        (True, w1, t1) \<Rightarrow> Inr (w1, t1)
      | (False, w1, t1) \<Rightarrow>
          (case run_pre_handlers code (plugins s) 0 w1 t1 of
             (True, w2, t2) \<Rightarrow> Inr (w2, t2)
           | (False, w2, t2) \<Rightarrow>
               (case alloc al of
                  (path_copy_ok, al1) \<Rightarrow>
                    (case trie_match (root_node s) (Some (path (w_req w2))) path_copy_ok of
                       Inl f \<Rightarrow> Inl f
                     | Inr (is_matched, path_params, route_handler) \<Rightarrow>
                         (case (is_matched, route_handler) of
                            (True, Some h) \<Rightarrow>
                              let rq = (w_req w2)\<lparr>param_names := map p_name path_params,
                                                   param_values := map p_value path_params,
                                                   param_count := length path_params\<rparr>;
                                  w3 = code h (w2\<lparr>w_req := rq\<rparr>)
                              in Inr (run_post_handlers code (plugins s) 0 w3
                                        (t2 @ [(RouteHandlerStage h, w3)]))
                          | _ \<Rightarrow>
                              (case res_send_error (clients s) zlib w2 404 (Some ''Not Found'') al1 of
                                 Inl f \<Rightarrow> Inl f
                               | Inr (w3, al2) \<Rightarrow>
                                   Inr (run_post_handlers code (plugins s) 0 w3
                                          (t2 @ [(NotFoundStage, w3)]))))))))"

subsection \<open>Example values\<close>

definition example_request :: Request where
  "example_request =
     \<lparr>req_method = ''GET'', path = ''/users/42'', query = [], body = None,
      header_names = [], header_values = [], header_count = 0,
      param_names = [''id''], param_values = [''42''], param_count = 1\<rparr>"

definition example_response :: Response where
  "example_response =
     \<lparr>status_code = 200, content = Some (''ab'' @ [CHR 0x00]), content_length = 2,
      out_header_names = [], out_header_values = [], out_header_count = 0,
      client = Some 7, headers_sent = False, compression = COMPRESSION_NONE\<rparr>"

definition example_clients :: "ClientContext list" where
  "example_clients = [\<lparr>stream = 7, is_websocket = True, websocket_connected = True\<rparr>]"

text \<open>The root node as \<^verbatim>\<open>reavix_init\<close> leaves it, and two route handlers.\<close>

definition empty_root :: TrieNode where
  "empty_root = TrieNode [] None [] None 0"

definition id_handler :: RouteHandler where
  "id_handler = 1"

definition me_handler :: RouteHandler where
  "me_handler = 2"

text \<open>
  The trie holding \<^verbatim>\<open>/users/:id\<close> and \<^verbatim>\<open>/users/me\<close>, and its node for \<^verbatim>\<open>users\<close>.
\<close>

definition users_node :: TrieNode where
  "users_node =
     TrieNode ''users'' None [TrieNode ''me'' (Some me_handler) [] None 0]
       (Some (TrieNode '':id'' (Some id_handler) [] None 0)) 1"

definition users_trie :: TrieNode where
  "users_trie = TrieNode [] None [users_node] None 1"

text \<open>
  A zeroed response on connection 7, a request for a path no route has, and a state with
  the two user routes and no middleware or plugin.
\<close>

definition blank_response :: Response where
  "blank_response =
     \<lparr>status_code = 0, content = None, content_length = 0,
      out_header_names = [], out_header_values = [], out_header_count = 0,
      client = Some 7, headers_sent = False, compression = COMPRESSION_NONE\<rparr>"

definition missing_world :: World where
  "missing_world =
     \<lparr>w_req = example_request\<lparr>path := ''/missing'', param_names := [], param_values := [],
                               param_count := 0\<rparr>,
      w_res = blank_response, w_wire = []\<rparr>"

definition plain_state :: ReavixState where
  "plain_state =
     \<lparr>routes = [\<lparr>entry_method = Some ''GET'', entry_path = Some ''/users/:id'',
                  entry_handler = Some id_handler\<rparr>,
                \<lparr>entry_method = Some ''GET'', entry_path = Some ''/users/me'',
                  entry_handler = Some me_handler\<rparr>],
      route_capacity = 16, root_node = users_trie,
      plugins = [], middleware = [], clients = example_clients\<rparr>"

text \<open>A zlib whose every run fails, as when \<^verbatim>\<open>deflateInit\<close> does not return \<^verbatim>\<open>Z_OK\<close>.\<close>

definition failing_zlib :: "CompressionType \<Rightarrow> string \<Rightarrow> string option" where
  "failing_zlib c bytes = None"



text \<open>
  A pipeline with two middleware functions and one plugin. The function at address 10
  leaves the world alone; the one at 11 answers 401 through \<^verbatim>\<open>send_response\<close>; the
  plugin hooks at 12 and 13 and the route handlers set other status codes, so a run of
  any of them would show in the response.
\<close>

definition deny :: "World \<Rightarrow> World" where
  "deny w =
     (case send_response example_clients (w\<lparr>w_res := (w_res w)\<lparr>status_code := 401\<rparr>\<rparr>) of
        Inr w1 \<Rightarrow> w1
      | Inl f \<Rightarrow> w)"

definition example_code :: "nat \<Rightarrow> World \<Rightarrow> World" where
  "example_code a w =
     (if a = 10 then w
      else if a = 11 then deny w
      else if a = 12 then w\<lparr>w_res := (w_res w)\<lparr>status_code := 512\<rparr>\<rparr>
      else if a = 13 then w\<lparr>w_res := (w_res w)\<lparr>status_code := 513\<rparr>\<rparr>
      else w\<lparr>w_res := (w_res w)\<lparr>status_code := 200\<rparr>\<rparr>)"

definition gated_state :: ReavixState where
  "gated_state =
     plain_state\<lparr>middleware := [10, 11],
                  plugins := [\<lparr>plugin_name = ''audit'', plugin_init = None,
                               pre_handler = Some 12, post_handler = Some 13\<rparr>]\<rparr>"

definition users_world :: World where
  "users_world = missing_world\<lparr>w_req := (w_req missing_world)\<lparr>path := ''/users/me''\<rparr>\<rparr>"

definition denied_world :: World where
  "denied_world =
     users_world\<lparr>w_res := blank_response\<lparr>status_code := 401, headers_sent := True\<rparr>,
                  w_wire := [(7, ''HTTP/1.1 401 Unauthorized'' @ [CHR 0x0D, CHR 0x0A]
                                 @ ''Content-Length: 0''
                                 @ [CHR 0x0D, CHR 0x0A, CHR 0x0D, CHR 0x0A])]\<rparr>"

text \<open>The traces whose gate stages all left \<open>headers_sent\<close> clear.\<close>

definition quiet :: "(Stage \<times> World) list \<Rightarrow> bool" where
  "quiet tr = (\<forall>e \<in> set tr. is_gate (fst e) \<and> \<not> headers_sent (w_res (snd e)))"




text \<open>
  The state after \<^verbatim>\<open>reavix_init(16)\<close>, and the states of two short runs: \<^verbatim>\<open>GET /x\<close> then
  \<^verbatim>\<open>POST /x\<close>, and \<^verbatim>\<open>GET /a/:x/b\<close> then \<^verbatim>\<open>GET /a/:x\<close>.
\<close>

definition started_state :: ReavixState where
  "started_state =
     \<lparr>routes = [], route_capacity = 16, root_node = TrieNode [] None [] None 0,
      plugins = [], middleware = [], clients = []\<rparr>"

definition get_x_route :: RouteEntry where
  "get_x_route = \<lparr>entry_method = Some ''GET'', entry_path = Some ''/x'', entry_handler = Some 11\<rparr>"

definition post_x_route :: RouteEntry where
  "post_x_route = \<lparr>entry_method = Some ''POST'', entry_path = Some ''/x'', entry_handler = Some 12\<rparr>"

definition get_x_state :: ReavixState where
  "get_x_state =
     started_state\<lparr>routes := [get_x_route],
                    root_node := TrieNode [] None [TrieNode ''x'' (Some 11) [] None 0] None 1\<rparr>"

definition post_x_state :: ReavixState where
  "post_x_state =
     started_state\<lparr>routes := [get_x_route, post_x_route],
                    root_node := TrieNode [] None [TrieNode ''x'' (Some 12) [] None 0] None 1\<rparr>"

definition deep_route :: RouteEntry where
  "deep_route =
     \<lparr>entry_method = Some ''GET'', entry_path = Some ''/a/:x/b'', entry_handler = Some 11\<rparr>"

definition shallow_route :: RouteEntry where
  "shallow_route =
     \<lparr>entry_method = Some ''GET'', entry_path = Some ''/a/:x'', entry_handler = Some 12\<rparr>"

definition deep_state :: ReavixState where
  "deep_state =
     started_state\<lparr>routes := [deep_route],
                    root_node :=
                      TrieNode [] None
                        [TrieNode ''a'' None []
                           (Some (TrieNode '':x'' None [TrieNode ''b'' (Some 11) [] None 0] None 1)) 0]
                        None 1\<rparr>"

definition shallow_state :: ReavixState where
  "shallow_state =
     started_state\<lparr>routes := [deep_route, shallow_route],
                    root_node :=
                      TrieNode [] None
                        [TrieNode ''a'' None [] (Some (TrieNode '':x'' (Some 12) [] None 0)) 0]
                        None 1\<rparr>"

text \<open>A table with no room left.\<close>

definition full_state :: ReavixState where
  "full_state = get_x_state\<lparr>route_capacity := 1\<rparr>"

section \<open>Request parameters\<close>

lemma strcasecmp_zero_iff: "strcasecmp a b = 0 \<longleftrightarrow> map tolower a = map tolower b"
  by (induction a b rule: strcasecmp.induct) auto

lemma param_scan_find:
  assumes "\<forall>i \<in> set js. i < length ns \<and> i < length vs"
  shows "param_scan ns vs k js =
         Inr (case find (\<lambda>i. map tolower (ns ! i) = map tolower k) js of
                None \<Rightarrow> None | Some i \<Rightarrow> Some (vs ! i))"
  using assms by (induction js) (auto simp: strcasecmp_zero_iff)

text \<open>
  C10. \<^verbatim>\<open>req_get_param\<close> returns \<^verbatim>\<open>NULL\<close> for a \<^verbatim>\<open>NULL\<close> request or key; on a request
  whose two parameter arrays hold \<open>param_count\<close> entries it returns the value at the first
  index whose name equals the key after lower-casing both (ASCII case-insensitive), and
  \<^verbatim>\<open>NULL\<close> when there is no such index.
\<close>

theorem req_get_param_case_insensitive:
  "req_get_param None key = Inr None \<and>
   req_get_param request None = Inr None \<and>
   (param_count r \<le> length (param_names r) \<and> param_count r \<le> length (param_values r) \<longrightarrow>
    req_get_param (Some r) (Some k) =
      Inr (case find (\<lambda>i. map tolower (param_names r ! i) = map tolower k) [0 ..< param_count r] of
             None \<Rightarrow> None
           | Some i \<Rightarrow> Some (param_values r ! i)))"
proof -
  have a: "req_get_param None key = Inr None"
    by (simp add: req_get_param_def)
  have b: "req_get_param request None = Inr None"
    by (simp add: req_get_param_def split: option.splits)
  have c: "req_get_param (Some r) (Some k) =
      Inr (case find (\<lambda>i. map tolower (param_names r ! i) = map tolower k) [0 ..< param_count r] of
             None \<Rightarrow> None
           | Some i \<Rightarrow> Some (param_values r ! i))"
    if "param_count r \<le> length (param_names r)" "param_count r \<le> length (param_values r)"
    unfolding req_get_param_def option.case
    by (rule param_scan_find) (use that in auto)
  from a b c show ?thesis by blast
qed

text \<open>The key \<^verbatim>\<open>"ID"\<close> finds the parameter captured for \<^verbatim>\<open>:id\<close>.\<close>

theorem req_get_param_case_insensitive_witness:
  "param_count example_request \<le> length (param_names example_request) \<and>
   param_count example_request \<le> length (param_values example_request) \<and>
   req_get_param (Some example_request) (Some ''ID'') = Inr (Some ''42'') \<and>
   req_get_param (Some example_request) (Some ''name'') = Inr None"
proof -
  have lower: "tolower CHR ''I'' = CHR ''i''" "tolower CHR ''D'' = CHR ''d''"
    "tolower CHR ''i'' = CHR ''i''" "tolower CHR ''d'' = CHR ''d''"
    "tolower CHR ''n'' = CHR ''n''" "tolower CHR ''a'' = CHR ''a''"
    "tolower CHR ''m'' = CHR ''m''" "tolower CHR ''e'' = CHR ''e''"
    by code_simp+
  show ?thesis
    using req_get_param_case_insensitive [of undefined undefined example_request "''ID''"]
      req_get_param_case_insensitive [of undefined undefined example_request "''name''"]
    by (simp add: example_request_def lower)
qed

section \<open>Response body\<close>

lemma length_realloc_block: "length (realloc_block old n fresh) = n"
  by (simp add: realloc_block_def Let_def)

lemma take_realloc_block:
  assumes "k \<le> n" "k \<le> length (case old of None \<Rightarrow> [] | Some b \<Rightarrow> b)"
  shows "take k (realloc_block old n fresh) = take k (case old of None \<Rightarrow> [] | Some b \<Rightarrow> b)"
  using assms
  by (auto simp: realloc_block_def Let_def list_eq_iff_nth_eq split: option.splits)

lemma res_write_success:
  assumes len: "length d = len"
    and fit: "content_length r + len + 1 < 2 ^ 64"
    and blk: "content_length r \<le> length (case content r of None \<Rightarrow> [] | Some b \<Rightarrow> b)"
  shows "\<exists>blk. res_write (Some r) (Some d) len True fresh =
             Inr (True, Some (r\<lparr>content := Some blk, content_length := content_length r + len\<rparr>)) \<and>
           length blk = content_length r + len + 1 \<and>
           take (content_length r) blk =
             take (content_length r) (case content r of None \<Rightarrow> [] | Some b \<Rightarrow> b) \<and>
           take len (drop (content_length r) blk) = d \<and>
           blk ! (content_length r + len) = CHR 0x00"
proof -
  let ?cl = "content_length r"
  let ?n = "?cl + len + 1"
  let ?nb = "realloc_block (content r) ?n fresh"
  let ?cp = "memcpy_at ?nb ?cl d len"
  let ?blk = "?cp[?cl + len := CHR 0x00]"
  have lnb: "length ?nb = ?n" by (rule length_realloc_block)
  have lcp: "length ?cp = ?n" using lnb len by (simp add: memcpy_at_def)
  have eq: "res_write (Some r) (Some d) len True fresh =
      Inr (True, Some (r\<lparr>content := Some ?blk, content_length := ?cl + len\<rparr>))"
    using len fit by (simp add: res_write_def Let_def)
  let ?A = "take ?cl ?nb"
  let ?B = "drop (?cl + len) ?nb"
  have lA: "length ?A = ?cl" using lnb by simp
  have shape: "?blk = ?A @ d @ ?B[0 := CHR 0x00]"
    using lA len by (simp add: memcpy_at_def list_update_append)
  have t1: "take ?cl ?blk = ?A"
    using lA by (simp only: shape take_append) simp
  have t2: "?A = take ?cl (case content r of None \<Rightarrow> [] | Some b \<Rightarrow> b)"
    by (rule take_realloc_block) (use blk in auto)
  have t3: "take len (drop ?cl ?blk) = d"
    using lA len by (simp only: shape drop_append take_append) simp
  have t4: "?blk ! (?cl + len) = CHR 0x00"
    using lcp by simp
  have t5: "length ?blk = ?n" using lcp by simp
  show ?thesis using eq t1 t2 t3 t4 t5 by (intro exI[of _ ?blk]) simp
qed

text \<open>
  C9. \<^verbatim>\<open>res_write\<close> returns false and leaves the response as it was when the response
  or the data pointer is \<^verbatim>\<open>NULL\<close> or the reallocation fails. Otherwise, for a data buffer
  of \<open>len\<close> bytes and a body block that holds its \<open>content_length\<close> bytes, it returns
  true; \<open>content_length\<close> grows by \<open>len\<close>, the bytes written before are kept, the
  \<open>len\<close> new bytes follow them, and a NUL byte ends the body. No other field changes.
\<close>

theorem res_write_appends:
  "res_write None data len ok fresh = Inr (False, None) \<and>
   res_write (Some r) None len ok fresh = Inr (False, Some r) \<and>
   res_write (Some r) (Some d) len False fresh = Inr (False, Some r) \<and>
   (length d = len \<and> content_length r + len + 1 < 2 ^ 64 \<and>
    content_length r \<le> length (case content r of None \<Rightarrow> [] | Some b \<Rightarrow> b) \<longrightarrow>
    (\<exists>blk. res_write (Some r) (Some d) len True fresh =
             Inr (True, Some (r\<lparr>content := Some blk, content_length := content_length r + len\<rparr>)) \<and>
           length blk = content_length r + len + 1 \<and>
           take (content_length r) blk =
             take (content_length r) (case content r of None \<Rightarrow> [] | Some b \<Rightarrow> b) \<and>
           take len (drop (content_length r) blk) = d \<and>
           blk ! (content_length r + len) = CHR 0x00))"
proof -
  have "res_write None data len ok fresh = Inr (False, None)"
    and "res_write (Some r) None len ok fresh = Inr (False, Some r)"
    and "res_write (Some r) (Some d) len False fresh = Inr (False, Some r)"
    by (simp_all add: res_write_def)
  then show ?thesis
    using res_write_success [of d len r fresh] by blast
qed

theorem res_write_appends_witness:
  "length ''cd'' = 2 \<and> content_length example_response + 2 + 1 < 2 ^ 64 \<and>
   content_length example_response
     \<le> length (case content example_response of None \<Rightarrow> [] | Some b \<Rightarrow> b) \<and>
   (\<exists>blk. res_write (Some example_response) (Some ''cd'') 2 True (\<lambda>i. CHR ''?'') =
            Inr (True, Some (example_response\<lparr>content := Some blk, content_length := 4\<rparr>)) \<and>
          length blk = 5 \<and> take 2 blk = ''ab'' \<and> take 2 (drop 2 blk) = ''cd'' \<and>
          blk ! 4 = CHR 0x00)"
  using res_write_appends [of undefined 2 True "\<lambda>i. CHR ''?''" example_response "''cd''"]
  by (simp add: example_response_def)

section \<open>WebSocket framing\<close>

lemma len_field_lo:
  assumes "n \<le> 65535"
  shows "unat (ucast ((word_of_nat n :: 64 word) AND 0xFF) :: 8 word) = n mod 256"
proof -
  have m: "(0xFF :: 64 word) = mask 8" by (simp add: mask_eq_exp_minus_1)
  have a: "unat (word_of_nat n :: 64 word) = n" using assms by (simp add: unat_of_nat)
  show ?thesis
    apply (simp only: m)
    apply (simp add: unsigned_ucast_eq unsigned_take_bit_eq a take_bit_eq_mod unat_mod_distrib
        flip: take_bit_eq_mask)
    done
qed

lemma len_field_hi:
  assumes "n \<le> 65535"
  shows "unat (ucast (drop_bit 8 (word_of_nat n :: 64 word) AND 0xFF) :: 8 word) = n div 256"
proof -
  have m: "(0xFF :: 64 word) = mask 8" by (simp add: mask_eq_exp_minus_1)
  have a: "unat (word_of_nat n :: 64 word) = n" using assms by (simp add: unat_of_nat)
  have b: "n div 256 < 256" using assms by simp
  show ?thesis
    apply (simp only: m)
    apply (simp add: unsigned_ucast_eq unsigned_take_bit_eq unat_drop_bit_eq a take_bit_eq_mod
        drop_bit_eq_div b unat_mod_distrib unat_div_distrib flip: take_bit_eq_mask)
    done
qed

lemma len_field_small:
  assumes "n \<le> 125"
  shows "unat (ucast (word_of_nat n :: 64 word) :: 8 word) = n"
  using assms by (simp add: unsigned_ucast_eq unat_of_nat take_bit_eq_mod)

lemma ws_send_frame_shape:
  assumes "reavix_ws_send conns res message ok = Inr (Some frame)"
  shows "\<exists>m. message = Some m \<and> length m \<le> 65535 \<and> frame ! 0 = 0x81 \<and>
           (length m \<le> 125 \<longrightarrow>
              length frame = length m + 2 \<and> unat (frame ! 1) = length m \<and>
              drop 2 frame = map of_char m) \<and>
           (125 < length m \<longrightarrow>
              length frame = length m + 4 \<and> frame ! 1 = 126 \<and>
              unat (frame ! 2) * 256 + unat (frame ! 3) = length m \<and>
              drop 4 frame = map of_char m)"
  using assms
  by (auto simp: reavix_ws_send_def Let_def len_field_small len_field_hi len_field_lo
           split: option.splits if_splits)

lemma ws_send_oversized:
  assumes "message = Some m" "65535 < length m"
  shows "reavix_ws_send conns res message ok \<noteq> Inr (Some frame)"
  using assms
  by (auto simp: reavix_ws_send_def Let_def split: option.splits if_splits)

lemma ws_send_emits:
  assumes "res = Some r" "message = Some m" "client r = Some s"
    "find_client_context conns s = Some ctx" "is_websocket ctx" "ok"
  shows "(length m \<le> 65535 \<longrightarrow> (\<exists>f. reavix_ws_send conns res message ok = Inr (Some f))) \<and>
         (65535 < length m \<longrightarrow> reavix_ws_send conns res message ok = Inr None)"
  using assms
  by (auto simp: reavix_ws_send_def Let_def split: option.splits if_splits)

text \<open>
  C7. Every frame \<^verbatim>\<open>reavix_ws_send\<close> hands to the connection starts with the byte
  \<^verbatim>\<open>0x81\<close>; for a message of at most 125 bytes the second byte is the length (mask bit clear)
  and the message follows; for 126 to 65535 bytes the second byte is 126, the next two
  bytes are the length in big-endian order and the message follows. A message longer than
  65535 bytes never produces a frame. On a WebSocket connection with the frame buffer
  allocated, a message of at most 65535 bytes does produce a frame and a longer one returns
  without writing.
\<close>

theorem reavix_ws_send_framing:
  "(reavix_ws_send conns res message ok = Inr (Some frame) \<longrightarrow>
      (\<exists>m. message = Some m \<and> length m \<le> 65535 \<and> frame ! 0 = 0x81 \<and>
           (length m \<le> 125 \<longrightarrow>
              length frame = length m + 2 \<and> unat (frame ! 1) = length m \<and>
              drop 2 frame = map of_char m) \<and>
           (125 < length m \<longrightarrow>
              length frame = length m + 4 \<and> frame ! 1 = 126 \<and>
              unat (frame ! 2) * 256 + unat (frame ! 3) = length m \<and>
              drop 4 frame = map of_char m))) \<and>
   (message = Some big \<and> 65535 < length big \<longrightarrow>
      reavix_ws_send conns res message ok \<noteq> Inr (Some frame)) \<and>
   (res = Some r \<and> message = Some msg \<and> client r = Some s \<and>
    find_client_context conns s = Some ctx \<and> is_websocket ctx \<and> ok \<longrightarrow>
      (length msg \<le> 65535 \<longrightarrow> (\<exists>f. reavix_ws_send conns res message ok = Inr (Some f))) \<and>
      (65535 < length msg \<longrightarrow> reavix_ws_send conns res message ok = Inr None))"
  using ws_send_frame_shape [of conns res message ok frame]
    ws_send_oversized [of message big conns res ok frame]
    ws_send_emits [of res r message msg s conns ctx ok]
  by blast

lemma ws_send_small_example: "reavix_ws_send example_clients (Some example_response) (Some ''hi'') True =
     Inr (Some [0x81, 2, 0x68, 0x69])"
  by (simp add: reavix_ws_send_def example_clients_def example_response_def)

lemma ws_send_medium_example: "reavix_ws_send example_clients (Some example_response) (Some (replicate 300 CHR ''a'')) True =
     Inr (Some ([0x81, 126, 1, 44] @ replicate 300 0x61))"
  by (simp add: reavix_ws_send_def example_clients_def example_response_def)

lemma ws_send_large_example: "reavix_ws_send example_clients (Some example_response) (Some (replicate 70000 CHR ''a'')) True =
     Inr None"
  by (simp add: reavix_ws_send_def example_clients_def example_response_def)

theorem reavix_ws_send_framing_witness:
  "reavix_ws_send example_clients (Some example_response) (Some ''hi'') True =
     Inr (Some [0x81, 2, 0x68, 0x69]) \<and>
   reavix_ws_send example_clients (Some example_response) (Some (replicate 300 CHR ''a'')) True =
     Inr (Some ([0x81, 126, 1, 44] @ replicate 300 0x61)) \<and>
   65535 < length (replicate 70000 CHR ''a'') \<and>
   reavix_ws_send example_clients (Some example_response) (Some (replicate 70000 CHR ''a'')) True =
     Inr None"
  using reavix_ws_send_framing [of example_clients "Some example_response" "Some ''hi''" True
      "[0x81, 2, 0x68, 0x69]" "replicate 70000 CHR ''a''" example_response "''hi''" 7
      "\<lparr>stream = 7, is_websocket = True, websocket_connected = True\<rparr>"]
    reavix_ws_send_framing [of example_clients "Some example_response"
      "Some (replicate 70000 CHR ''a'')" True
      "[]" "replicate 70000 CHR ''a''" example_response "replicate 70000 CHR ''a''" 7
      "\<lparr>stream = 7, is_websocket = True, websocket_connected = True\<rparr>"]
  by (simp add: ws_send_small_example ws_send_medium_example ws_send_large_example)

section \<open>The IPC arena\<close>

lemma read32le_split:
  "read32le [ucast w, ucast (drop_bit 8 w), ucast (drop_bit 16 w), ucast (drop_bit 24 w)] = (w :: 32 word)"
  unfolding read32le_def
  apply (rule bit_word_eqI)
  apply (simp add: bit_simps)
  apply (auto simp: bit_simps)
  subgoal for n
    apply (cases "n < 8") apply simp
    apply (cases "n < 16") apply simp
    apply (cases "n < 24") apply simp
    apply simp
    done
  done

lemma load_store_same: "load_u32 (store_u32 buf off w) off = w"
  by (simp add: load_u32_def store_u32_def read32le_split)

lemma load_store_other:
  "off' + 4 \<le> off \<or> off + 4 \<le> off' \<Longrightarrow> load_u32 (store_u32 buf off w) off' = load_u32 buf off'"
  by (auto simp: load_u32_def store_u32_def)

lemma zeroed_region: "map (memset_zero buf p n) [p ..< p + n] = replicate n 0"
  by (auto simp: list_eq_iff_nth_eq memset_zero_def)

lemma allocate_success:
  assumes "ipc_arena_allocate arena sz = Inr (Some p, arena')"
  shows "p = unat (write_offset arena) + 16 \<and> p + unat sz \<le> IPC_BUFFER_SIZE \<and>
         load_u32 (buffer arena') (unat (write_offset arena)) = IPC_MAGIC \<and>
         load_u32 (buffer arena') (unat (write_offset arena) + 4) = ucast sz \<and>
         load_u32 (buffer arena') (unat (write_offset arena) + 8)
           = XXH32 (replicate (unat sz) 0) IPC_MAGIC \<and>
         load_u32 (buffer arena') (unat (write_offset arena) + 12) = 0 \<and>
         map (buffer arena') [p ..< p + unat sz] = replicate (unat sz) 0"
proof -
  let ?h = "unat (write_offset arena)"
  from assms have p: "p = ?h + 16" and fit: "?h + 16 + unat sz \<le> IPC_BUFFER_SIZE"
    by (auto simp: ipc_arena_allocate_def Let_def split: if_splits)
  let ?b1 = "store_u32 (buffer arena) ?h IPC_MAGIC"
  let ?b2 = "store_u32 ?b1 (?h + 4) (ucast sz)"
  let ?b3 = "store_u32 ?b2 (?h + 12) 0"
  let ?b4 = "memset_zero ?b3 (?h + 16) (unat sz)"
  let ?b5 = "store_u32 ?b4 (?h + 8) (XXH32 (map ?b4 [?h + 16 ..< ?h + 16 + unat sz]) IPC_MAGIC)"
  from assms have b: "buffer arena' = ?b5"
    by (auto simp: ipc_arena_allocate_def Let_def split: if_splits)
  have z: "map ?b4 [?h + 16 ..< ?h + 16 + unat sz] = replicate (unat sz) 0"
    by (rule zeroed_region)
  have hdr4: "load_u32 ?b4 k = load_u32 ?b3 k" if "k + 4 \<le> ?h + 16" for k
    using that by (simp add: load_u32_def memset_zero_def)
  have c0: "load_u32 ?b5 ?h = IPC_MAGIC"
    by (simp add: load_store_other hdr4 load_store_same)
  have c1: "load_u32 ?b5 (?h + 4) = ucast sz"
    by (simp add: load_store_other hdr4 load_store_same)
  have c2: "load_u32 ?b5 (?h + 8) = XXH32 (replicate (unat sz) 0) IPC_MAGIC"
    by (simp only: load_store_same z)
  have c3: "load_u32 ?b5 (?h + 12) = 0"
    by (simp add: load_store_other hdr4 load_store_same)
  have c4: "map ?b5 [?h + 16 ..< ?h + 16 + unat sz] = replicate (unat sz) 0"
    by (auto simp: list_eq_iff_nth_eq store_u32_def memset_zero_def)
  show ?thesis using p fit b c0 c1 c2 c3 c4 by simp
qed

lemma checksum_after_write:
  assumes "ipc_arena_allocate arena sz = Inr (Some p, arena')"
    and "length bs = unat sz" and "unat sz < 2 ^ 32"
  shows "arena_read_payload (arena_write_payload arena' p bs) (p - 16) = bs \<and>
         arena_stored_checksum (arena_write_payload arena' p bs) (p - 16)
           = XXH32 (replicate (length bs) 0) IPC_MAGIC"
proof -
  let ?h = "unat (write_offset arena)"
  from allocate_success [OF assms(1)]
  have p: "p = ?h + 16"
    and len: "load_u32 (buffer arena') (?h + 4) = ucast sz"
    and sum: "load_u32 (buffer arena') (?h + 8) = XXH32 (replicate (unat sz) 0) IPC_MAGIC"
    by simp_all
  let ?a = "arena_write_payload arena' p bs"
  have hdr: "load_u32 (buffer ?a) k = load_u32 (buffer arena') k" if "k + 4 \<le> p" for k
    using that by (simp add: arena_write_payload_def load_u32_def)
  have u: "unat (ucast sz :: 32 word) = unat sz"
    using assms(3) by (simp add: unsigned_ucast_eq take_bit_eq_mod)
  have l: "load_u32 (buffer ?a) (?h + 4) = ucast sz"
    using hdr [of "?h + 4"] p len by simp
  have s: "load_u32 (buffer ?a) (?h + 8) = XXH32 (replicate (unat sz) 0) IPC_MAGIC"
    using hdr [of "?h + 8"] p sum by simp
  have r: "map (buffer ?a) [p ..< p + length bs] = bs"
  proof (rule nth_equalityI)
    show "length (map (buffer ?a) [p ..< p + length bs]) = length bs" by simp
  next
    fix i assume "i < length (map (buffer ?a) [p ..< p + length bs])"
    then show "map (buffer ?a) [p ..< p + length bs] ! i = bs ! i"
      by (simp add: arena_write_payload_def)
  qed
  show ?thesis
    using p l s r u assms(2) by (simp add: arena_read_payload_def arena_stored_checksum_def)
qed

lemma xxh32_zero_payload: "XXH32 [0,0,0,0] IPC_MAGIC = 3277177986" by code_simp
lemma xxh32_example_payload: "XXH32 [1,2,3,4] IPC_MAGIC = 3514819988" by code_simp

lemma allocate_four_bytes: "\<exists>arena. ipc_arena_allocate fresh_arena 4 = Inr (Some 16, arena)"
  by (simp add: ipc_arena_allocate_def fresh_arena_def ipc_arena_init_def IPC_BUFFER_SIZE_def Let_def)

text \<open>
  C2. On a freshly initialised arena, \<^verbatim>\<open>ipc_arena_allocate(arena, 4194304)\<close> passes the
  capacity test of the source (offset 0 plus the aligned size 4194304 does not exceed
  \<open>IPC_BUFFER_SIZE\<close>), so it does not return \<^verbatim>\<open>NULL\<close>; the header and the zeroed payload
  then cover the bytes 0 to 4194320, sixteen bytes more than the buffer holds. The test
  leaves the 16 header bytes out.
\<close>

theorem ipc_arena_allocate_header_overrun:
  "ipc_arena_allocate fresh_arena 4194304 = Inl OutOfBounds \<and>
   \<not> write_offset fresh_arena + ((4194304 + 15) AND NOT 15) > word_of_nat IPC_BUFFER_SIZE \<and>
   unat (write_offset fresh_arena) + 16 + unat (4194304 :: 64 word) = IPC_BUFFER_SIZE + 16"
  by (simp add: ipc_arena_allocate_def fresh_arena_def ipc_arena_init_def IPC_BUFFER_SIZE_def Let_def)

text \<open>
  C3. A 4-byte message on a fresh arena: the payload \<open>[1, 2, 3, 4]\<close> written to the
  returned pointer reads back unchanged through the header, but the checksum in the
  header is the hash of the four zero bytes that \<^verbatim>\<open>ipc_arena_allocate\<close> found there, which
  differs from the hash of the payload read back.
\<close>

theorem arena_checksum_is_of_zeroes:
  "\<exists>arena. ipc_arena_allocate fresh_arena 4 = Inr (Some 16, arena) \<and>
     arena_read_payload (arena_write_payload arena 16 [1, 2, 3, 4]) 0 = [1, 2, 3, 4] \<and>
     arena_stored_checksum (arena_write_payload arena 16 [1, 2, 3, 4]) 0
       = XXH32 [0, 0, 0, 0] IPC_MAGIC \<and>
     arena_stored_checksum (arena_write_payload arena 16 [1, 2, 3, 4]) 0
       \<noteq> XXH32 (arena_read_payload (arena_write_payload arena 16 [1, 2, 3, 4]) 0) IPC_MAGIC"
proof -
  from allocate_four_bytes obtain arena
    where a: "ipc_arena_allocate fresh_arena 4 = Inr (Some 16, arena)" ..
  have "arena_read_payload (arena_write_payload arena 16 [1, 2, 3, 4]) (16 - 16) = [1, 2, 3, 4] \<and>
        arena_stored_checksum (arena_write_payload arena 16 [1, 2, 3, 4]) (16 - 16)
          = XXH32 (replicate (length [1, 2, 3, 4 :: byte]) 0) IPC_MAGIC"
    by (rule checksum_after_write [OF a]) simp_all
  then have "arena_read_payload (arena_write_payload arena 16 [1, 2, 3, 4]) 0 = [1, 2, 3, 4]"
    and "arena_stored_checksum (arena_write_payload arena 16 [1, 2, 3, 4]) 0
          = XXH32 [0, 0, 0, 0] IPC_MAGIC"
    by (simp_all add: numeral_eq_Suc)
  with a show ?thesis
    by (intro exI [of _ arena]) (simp add: xxh32_zero_payload xxh32_example_payload)
qed

section \<open>Trie lookups\<close>

lemmas trie_eval = trie_insert_def trie_match_def trie_match_include_def router_match_def
  strtok_segments_def is_param_def find_child_def create_trie_node_def set_children_def
  set_param_child_def set_handler_def empty_root_def MAX_PARAMS_def

lemma insert_id:
  "trie_insert empty_root (Some ''/users/:id'') (Some id_handler) [] =
     Inr (True, TrieNode [] None [TrieNode ''users'' None []
            (Some (TrieNode '':id'' (Some id_handler) [] None 0)) 0] None 1, [])"
  by (simp add: trie_eval)

text \<open>
  C5. With only \<^verbatim>\<open>/users/:id\<close> inserted, \<^verbatim>\<open>trie_match\<close> of src/libreavix.c (the one
  \<^verbatim>\<open>handle_request\<close> calls) returns false for \<^verbatim>\<open>/users/42\<close> and captures nothing: the
  segment \<^verbatim>\<open>42\<close> does not start with \<^verbatim>\<open>:\<close>, so the parameter child is not tried. On the
  same trie, \<^verbatim>\<open>trie_match\<close> of include/libreavix.c and \<^verbatim>\<open>router_match\<close> return the
  handler with the one parameter \<^verbatim>\<open>id = 42\<close>.
\<close>

theorem trie_match_misses_parameter_route:
  "\<exists>t. trie_insert empty_root (Some ''/users/:id'') (Some id_handler) [] = Inr (True, t, []) \<and>
       trie_match t (Some ''/users/42'') True = Inr (False, [], None) \<and>
       trie_match_include t (Some ''/users/42'') True
         = Inr (True, [\<lparr>p_name = ''id'', p_value = ''42''\<rparr>], Some id_handler) \<and>
       router_match [] t None (Some ''/users/42'') True True
         = Inr (True, [\<lparr>p_name = ''id'', p_value = ''42''\<rparr>], Some id_handler)"
  by (simp add: trie_eval)



lemma find_child_set_param_child [simp]:
  "find_child (set_param_child current pc) seg = find_child current seg"
  by (simp add: find_child_def set_param_child_def)

lemma children_set_param_child [simp]:
  "children (set_param_child current pc) = children current"
  by (simp add: set_param_child_def)






section \<open>The dispatch pipeline\<close>

lemma show_codes: "show_int 404 = ''404''" "show_int 401 = ''401''" "dec 0 = ''0''"
  by code_simp+

lemma deny_users: "deny users_world = denied_world"
  by (simp add: deny_def send_response_def users_world_def missing_world_def blank_response_def
      example_clients_def denied_world_def get_status_text_def show_codes Let_def)

lemma example_latches:
  "\<not> headers_sent (w_res users_world)" "headers_sent (w_res denied_world)"
  by (simp_all add: users_world_def missing_world_def blank_response_def denied_world_def)

lemma gated_run:
  "handle_request example_code failing_zlib gated_state users_world [] =
     Inr (denied_world, [(MiddlewareStage 0, users_world), (MiddlewareStage 1, denied_world)])"
  by (simp add: handle_request_def gated_state_def plain_state_def example_code_def deny_users
      Let_def example_latches)

lemma send_response_latch:
  "headers_sent (w_res w) \<Longrightarrow> send_response cl w = Inr w"
  by (simp add: send_response_def)

lemma send_response_sets_latch:
  "send_response cl w = Inr w1 \<Longrightarrow> client (w_res w) = Some s \<Longrightarrow>
   find_client_context cl s = Some ctx \<Longrightarrow> headers_sent (w_res w1)"
  by (auto simp: send_response_def Let_def split: if_splits sum.splits option.splits)




lemma status_line_kept:
  "length p = 24 \<Longrightarrow> take 24 (if length (p @ rest) = 4096 then take 4095 (p @ rest) @ z else p @ rest) = p"
  by simp












lemma quiet_Nil [simp]: "quiet []"
  by (simp add: quiet_def)

lemma quiet_append [simp]: "quiet (a @ b) \<longleftrightarrow> quiet a \<and> quiet b"
  by (auto simp: quiet_def)

lemma run_middleware_trace:
  "run_middleware code ms i w tr = (stop, w', tr') \<Longrightarrow> quiet tr \<Longrightarrow>
     (if stop then \<exists>tr0 st. tr' = tr0 @ [(st, w')] \<and> quiet tr0 \<and> is_gate st \<and> headers_sent (w_res w')
      else quiet tr')"
proof (induction ms arbitrary: i w tr)
  case Nil
  then show ?case by auto
next
  case (Cons m ms)
  let ?w1 = "code m w"
  show ?case
  proof (cases "headers_sent (w_res ?w1)")
    case True
    with Cons.prems show ?thesis
      by (auto simp: Let_def is_gate_def intro!: exI [of _ tr])
  next
    case False
    with Cons.prems have
      "run_middleware code ms (Suc i) ?w1 (tr @ [(MiddlewareStage i, ?w1)]) = (stop, w', tr')"
      by (simp add: Let_def)
    moreover have "quiet (tr @ [(MiddlewareStage i, ?w1)])"
      using Cons.prems(2) False by (simp add: quiet_def is_gate_def)
    ultimately show ?thesis by (rule Cons.IH)
  qed
qed

lemma run_pre_handlers_trace:
  "run_pre_handlers code ps i w tr = (stop, w', tr') \<Longrightarrow> quiet tr \<Longrightarrow>
     (if stop then \<exists>tr0 st. tr' = tr0 @ [(st, w')] \<and> quiet tr0 \<and> is_gate st \<and> headers_sent (w_res w')
      else quiet tr')"
proof (induction ps arbitrary: i w tr)
  case Nil
  then show ?case by auto
next
  case (Cons p ps)
  show ?case
  proof (cases "pre_handler p")
    case None
    with Cons.prems have "run_pre_handlers code ps (Suc i) w tr = (stop, w', tr')" by simp
    from Cons.IH [OF this Cons.prems(2)] show ?thesis .
  next
    case (Some f)
    let ?w1 = "code f w"
    show ?thesis
    proof (cases "headers_sent (w_res ?w1)")
      case True
      with Cons.prems Some show ?thesis
        by (auto simp: Let_def is_gate_def intro!: exI [of _ tr])
    next
      case False
      with Cons.prems Some have
        "run_pre_handlers code ps (Suc i) ?w1 (tr @ [(PreHandlerStage i, ?w1)]) = (stop, w', tr')"
        by (simp add: Let_def)
      moreover have "quiet (tr @ [(PreHandlerStage i, ?w1)])"
        using Cons.prems(2) False by (simp add: quiet_def is_gate_def)
      ultimately show ?thesis by (rule Cons.IH)
    qed
  qed
qed

lemma run_post_handlers_trace:
  "run_post_handlers code ps i w tr = (w', tr') \<Longrightarrow>
     \<exists>ext. tr' = tr @ ext \<and> (\<forall>e \<in> set ext. \<not> is_gate (fst e))"
proof (induction ps arbitrary: i w tr)
  case Nil
  then show ?case by auto
next
  case (Cons p ps)
  show ?case
  proof (cases "post_handler p")
    case None
    with Cons.prems have "run_post_handlers code ps (Suc i) w tr = (w', tr')" by simp
    from Cons.IH [OF this] show ?thesis .
  next
    case (Some f)
    with Cons.prems have
      "run_post_handlers code ps (Suc i) (code f w) (tr @ [(PostHandlerStage i, code f w)]) = (w', tr')"
      by (simp add: Let_def)
    from Cons.IH [OF this] obtain ext
      where "tr' = (tr @ [(PostHandlerStage i, code f w)]) @ ext" "\<forall>e \<in> set ext. \<not> is_gate (fst e)"
      by blast
    then show ?thesis
      by (intro exI [of _ "(PostHandlerStage i, code f w) # ext"]) (simp add: is_gate_def)
  qed
qed

lemma handle_request_trace:
  assumes "handle_request code zlib s w al = Inr (w', tr)"
  shows "(\<exists>tr0 st. tr = tr0 @ [(st, w')] \<and> quiet tr0 \<and> is_gate st \<and> headers_sent (w_res w')) \<or>
         (\<exists>tr0 ext. tr = tr0 @ ext \<and> quiet tr0 \<and> (\<forall>e \<in> set ext. \<not> is_gate (fst e)))"
proof -
  obtain b1 w1 t1 where m: "run_middleware code (middleware s) 0 w [] = (b1, w1, t1)"
    by (cases "run_middleware code (middleware s) 0 w []") auto
  note mt = run_middleware_trace [OF m quiet_Nil]
  show ?thesis
  proof (cases b1)
    case True
    with assms m have "w' = w1" "tr = t1" by (simp_all add: handle_request_def)
    with mt True show ?thesis by auto
  next
    case False
    with mt have q1: "quiet t1" by simp
    obtain b2 w2 t2 where p: "run_pre_handlers code (plugins s) 0 w1 t1 = (b2, w2, t2)"
      by (cases "run_pre_handlers code (plugins s) 0 w1 t1") auto
    note pt = run_pre_handlers_trace [OF p q1]
    show ?thesis
    proof (cases b2)
      case True
      with assms m p False have "w' = w2" "tr = t2" by (simp_all add: handle_request_def)
      with pt True show ?thesis by auto
    next
      case b2: False
      with pt have q2: "quiet t2" by simp
      from assms m p False b2 obtain w3 st3
        where "run_post_handlers code (plugins s) 0 w3 (t2 @ [(st3, w3)]) = (w', tr)"
          and "\<not> is_gate st3"
        by (auto simp: handle_request_def Let_def is_gate_def
            split: prod.splits sum.splits option.splits bool.splits)
      from run_post_handlers_trace [OF this(1)] obtain ext
        where "tr = (t2 @ [(st3, w3)]) @ ext" "\<forall>e \<in> set ext. \<not> is_gate (fst e)"
        by blast
      with \<open>\<not> is_gate st3\<close> q2
      have "tr = t2 @ ((st3, w3) # ext) \<and> quiet t2 \<and>
            (\<forall>e \<in> set ((st3, w3) # ext). \<not> is_gate (fst e))"
        by simp
      then show ?thesis by blast
    qed
  qed
qed

text \<open>
  C8. In the log of a run of \<^verbatim>\<open>handle_request\<close>, a middleware or pre-handler call after
  which \<open>headers_sent\<close> is set is the last call of the run: no later middleware, no
  pre-handler hook, no route handler, no 404 response and no post-handler hook is logged
  after it, and the world the run ends with (request, response and everything written to
  the connection) is the world that call returned.
\<close>

theorem headers_sent_short_circuit:
  assumes run: "handle_request code zlib s w al = Inr (w', tr)"
    and k: "k < length tr"
    and gate: "is_gate (fst (tr ! k))"
    and sent: "headers_sent (w_res (snd (tr ! k)))"
  shows "Suc k = length tr \<and> snd (tr ! k) = w'"
proof -
  have early: False if "tr = tr0 @ rest" "quiet tr0" "k < length tr0" for tr0 rest
  proof -
    from that have "tr ! k \<in> set tr0" by (simp add: nth_append)
    with that(2) sent show False by (auto simp: quiet_def)
  qed
  from handle_request_trace [OF run] show ?thesis
  proof (elim disjE exE conjE)
    fix tr0 st
    assume a: "tr = tr0 @ [(st, w')]" "quiet tr0"
    with early [of tr0 "[(st, w')]"] k have "k = length tr0" by (cases "k < length tr0") auto
    with a show ?thesis by simp
  next
    fix tr0 ext
    assume a: "tr = tr0 @ ext" "quiet tr0" "\<forall>e \<in> set ext. \<not> is_gate (fst e)"
    with early [of tr0 ext] have "\<not> k < length tr0" by blast
    with a(1) k have "tr ! k \<in> set ext" by (simp add: nth_append)
    with a(3) gate show ?thesis by blast
  qed
qed

theorem headers_sent_short_circuit_witness:
  "handle_request example_code failing_zlib gated_state users_world [] =
     Inr (denied_world, [(MiddlewareStage 0, users_world), (MiddlewareStage 1, denied_world)]) \<and>
   (1 :: nat) < length [(MiddlewareStage 0, users_world), (MiddlewareStage 1, denied_world)] \<and>
   is_gate (fst ([(MiddlewareStage 0, users_world), (MiddlewareStage 1, denied_world)] ! 1)) \<and>
   headers_sent (w_res (snd ([(MiddlewareStage 0, users_world), (MiddlewareStage 1, denied_world)] ! 1))) \<and>
   Suc 1 = length [(MiddlewareStage 0, users_world), (MiddlewareStage 1, denied_world)] \<and>
   snd ([(MiddlewareStage 0, users_world), (MiddlewareStage 1, denied_world)] ! 1) = denied_world \<and>
   status_code (w_res denied_world) = 401"
  using headers_sent_short_circuit [OF gated_run, of 1]
  by (simp add: gated_run example_latches is_gate_def denied_world_def)

section \<open>Route registration\<close>








lemma segment_setters [simp]:
  "segment (set_handler t h) = segment t"
  "segment (set_param_child t pc) = segment t"
  "segment (set_children t cs cc) = segment t"
  by (simp_all add: set_handler_def set_param_child_def set_children_def)

















lemmas route_eval = reavix_route_def route_count_def trie_eval started_state_def get_x_state_def
  post_x_state_def get_x_route_def post_x_route_def deep_state_def shallow_state_def
  deep_route_def shallow_route_def full_state_def Let_def


text \<open>
  When the seventh allocation fails (the node for the second segment), \<^verbatim>\<open>reavix_route\<close>
  returns false with the entry already in the table and the first segment already in the
  trie.
\<close>

lemma failed_insert_keeps_entry:
  "\<exists>s1. reavix_route started_state (Some ''GET'') (Some ''/a/b'') (Some 11)
           [True, True, True, True, True, True, False] = Inr (False, s1, []) \<and>
        routes s1 = [\<lparr>entry_method = Some ''GET'', entry_path = Some ''/a/b'', entry_handler = Some 11\<rparr>] \<and>
        root_node s1 = TrieNode [] None [TrieNode ''a'' None [] None 0] None 1"
  by (simp add: route_eval)






end
